theory Spec2Isabelle
  imports Complex_Main
begin

section \<open>Python floats\<close>

text \<open>
  A Python float is a finite number, taken as a real, one of the two infinities, or NaN.
  The comparisons are those of Python: every comparison with NaN is false.
\<close>

datatype pyfloat = Float real | PosInf | NegInf | NaN



section \<open>The Java bridge\<close>

text \<open>
  The module \<^verbatim>\<open>weka/experiments.py\<close> wraps objects of a Java virtual machine. Every
  operation on them goes through the \<^verbatim>\<open>javabridge\<close> primitives. The Java side is not
  part of the repository, so it is a parameter of the model: an oracle that is asked, for
  each foreign call and the calls made before it, whether the call throws or what it
  returns. Every call that is attempted is appended to the trace \<open>calls\<close> of the world,
  also when it throws.
\<close>

type_synonym handle = nat

datatype jvalue =
    JNull
  | JBool bool
  | JInt int
  | JDouble pyfloat
  | JString string
  | JObject handle

datatype jcall =
    MakeInstance string string "jvalue list"
  | Call jvalue string string "jvalue list"
  | FindClass string
  | MakeObjectArray nat jvalue
  | SetObjectArrayElement jvalue nat jvalue
  | GetObjectClass jvalue
  | FromCommandline string
  | EnforceType jvalue string

datatype jresult = Throws string | Returns jvalue

type_synonym jvm = "jcall list \<Rightarrow> jcall \<Rightarrow> jresult"

datatype error =
    Exception string
  | TypeError
  | JavaException string

text \<open>
  Modelled from the spec: the attribute metadata of an \<^verbatim>\<open>Instances\<close> object
  (\<^verbatim>\<open>weka.core.dataset\<close>, a module that is not among the sources). A dataset is the list of
  its attribute names in column order; \<^verbatim>\<open>get_attribute_by_name\<close> yields the first
  attribute with the given name or \<^verbatim>\<open>None\<close>, and \<^verbatim>\<open>Attribute.get_index\<close> its
  0-based position.
\<close>

type_synonym dataset = "string list"

type_synonym attribute = nat

record world =
  calls :: "jcall list"
  instances :: "dataset option"
  stdout :: "string list"
  logged :: "string list"

type_synonym 'a jb = "world \<Rightarrow> (error + 'a) \<times> world"

definition return_jb :: "'a \<Rightarrow> 'a jb" where
  "return_jb x w = (Inr x, w)"

definition raise_jb :: "error \<Rightarrow> 'a jb" where
  "raise_jb e w = (Inl e, w)"

definition bind_jb :: "'a jb \<Rightarrow> ('a \<Rightarrow> 'b jb) \<Rightarrow> 'b jb" where
  "bind_jb m f w = (case m w of (Inl e, w') \<Rightarrow> (Inl e, w') | (Inr x, w') \<Rightarrow> f x w')"

definition foreign :: "jvm \<Rightarrow> jcall \<Rightarrow> jvalue jb" where
  "foreign vm c w =
     (case vm (calls w) c of
        Throws msg \<Rightarrow> (Inl (JavaException msg), w\<lparr>calls := calls w @ [c]\<rparr>)
      | Returns v \<Rightarrow> (Inr v, w\<lparr>calls := calls w @ [c]\<rparr>))"

text \<open>
  A foreign call that creates an object yields a new reference. The reference is the
  position of the creating call in the trace, so no two objects share one.
\<close>

definition foreign_new :: "jvm \<Rightarrow> jcall \<Rightarrow> handle jb" where
  "foreign_new vm c w =
     (case foreign vm c w of
        (Inl e, w') \<Rightarrow> (Inl e, w')
      | (Inr v, w') \<Rightarrow> (Inr (length (calls w)), w'))"

definition of_ref :: "handle option \<Rightarrow> jvalue" where
  "of_ref r = (case r of None \<Rightarrow> JNull | Some h \<Rightarrow> JObject h)"

definition make_instance :: "jvm \<Rightarrow> string \<Rightarrow> string \<Rightarrow> jvalue list \<Rightarrow> handle jb" where
  "make_instance vm cls sig args = foreign_new vm (MakeInstance cls sig args)"

definition call :: "jvm \<Rightarrow> jvalue \<Rightarrow> string \<Rightarrow> string \<Rightarrow> jvalue list \<Rightarrow> jvalue jb" where
  "call vm obj meth sig args = foreign vm (Call obj meth sig args)"

definition find_class :: "jvm \<Rightarrow> string \<Rightarrow> handle jb" where
  "find_class vm name = foreign_new vm (FindClass name)"

definition make_object_array :: "jvm \<Rightarrow> nat \<Rightarrow> handle \<Rightarrow> handle jb" where
  "make_object_array vm n cls = foreign_new vm (MakeObjectArray n (JObject cls))"

definition set_object_array_element :: "jvm \<Rightarrow> handle \<Rightarrow> nat \<Rightarrow> jvalue \<Rightarrow> jvalue jb" where
  "set_object_array_element vm arr i v = foreign vm (SetObjectArrayElement (JObject arr) i v)"

definition get_object_class :: "jvm \<Rightarrow> handle \<Rightarrow> handle jb" where
  "get_object_class vm obj = foreign_new vm (GetObjectClass (JObject obj))"

text \<open>
  Modelled from the spec: \<^verbatim>\<open>utils.from_commandline\<close> and \<^verbatim>\<open>enforce_type\<close> are defined in
  \<^verbatim>\<open>weka.core\<close>, which is not among the sources. The first translates an option-string spec into a
  configured foreign classifier (section 4.3), the second fails with a type-mismatch error
  when the handle is not an instance of the expected foreign base type (section 4.1).
  Both are foreign calls whose outcome the oracle decides.
\<close>

definition from_commandline :: "jvm \<Rightarrow> string \<Rightarrow> handle jb" where
  "from_commandline vm cmdline = foreign_new vm (FromCommandline cmdline)"

definition enforce_type :: "jvm \<Rightarrow> handle \<Rightarrow> string \<Rightarrow> jvalue jb" where
  "enforce_type vm obj cls = foreign vm (EnforceType (JObject obj) cls)"

section \<open>Python strings\<close>

text \<open>
  Strings are byte strings: \<^verbatim>\<open>lower()\<close> maps the letters A to Z to a to z
  and leaves every other character as it is.
\<close>

definition lower_char :: "char \<Rightarrow> char" where
  "lower_char c =
     (case map_of (zip ''ABCDEFGHIJKLMNOPQRSTUVWXYZ'' ''abcdefghijklmnopqrstuvwxyz'') c of
        None \<Rightarrow> c
      | Some d \<Rightarrow> d)"

definition lower :: "string \<Rightarrow> string" where
  "lower s = map lower_char s"

definition endswith :: "string \<Rightarrow> string \<Rightarrow> bool" where
  "endswith s suffix = (take (length suffix) (rev s) = rev suffix)"

text \<open>\<^verbatim>\<open>str(x)\<close> of a value that is a string or \<^verbatim>\<open>None\<close>.\<close>

definition str_opt :: "string option \<Rightarrow> string" where
  "str_opt r = (case r of None \<Rightarrow> ''None'' | Some s \<Rightarrow> s)"

text \<open>\<^verbatim>\<open>str(n)\<close> of a non-negative integer: its decimal digits.\<close>

definition digit_char :: "nat \<Rightarrow> char" where
  "digit_char d = ''0123456789'' ! d"

function str_nat :: "nat \<Rightarrow> string" where
  "str_nat n = (if n < 10 then [digit_char n] else str_nat (n div 10) @ [digit_char (n mod 10)])"
  by pat_completeness auto
termination
  by (relation "measure id") auto

declare str_nat.simps [simp del]

section \<open>Experiments\<close>

text \<open>
  A classifier of the list handed to an experiment is a \<^verbatim>\<open>Classifier\<close> wrapper
  (its \<^verbatim>\<open>jobject\<close>) or a command-line string.
\<close>

datatype classifier = ClassifierObject handle | Commandline string

text \<open>
  The three classes: \<^verbatim>\<open>SimpleExperiment\<close> and its subclasses with the fields they add
  (\<^verbatim>\<open>folds\<close>; \<^verbatim>\<open>percentage\<close> and \<^verbatim>\<open>preserve_order\<close>). The percentage is a Python float.
\<close>

datatype experiment_class =
    SimpleExperiment
  | SimpleCrossValidationExperiment int
  | SimpleRandomSplitExperiment pyfloat bool

record java_object =
  jobject :: "handle option"

record simple_experiment = java_object +
  classification :: bool
  runs :: int
  datasets :: "string list"
  classifiers :: "classifier list"
  result :: "string option"
  cls :: experiment_class

text \<open>\<^verbatim>\<open>SimpleExperiment.__init__\<close>\<close>

definition SimpleExperiment_init ::
  "jvm \<Rightarrow> string list \<Rightarrow> classifier list \<Rightarrow> handle option \<Rightarrow> bool \<Rightarrow> int \<Rightarrow> string option
     \<Rightarrow> simple_experiment jb" where
  "SimpleExperiment_init vm datasets0 classifiers0 jobject0 classification0 runs0 result0 =
     bind_jb (case jobject0 of
                None \<Rightarrow> return_jb JNull
              | Some h \<Rightarrow> enforce_type vm h ''weka.experiment.Experiment'')
       (\<lambda>_. return_jb
          \<lparr>jobject = jobject0, classification = classification0, runs = runs0,
           datasets = datasets0, classifiers = classifiers0, result = result0,
           cls = SimpleExperiment\<rparr>)"

text \<open>\<^verbatim>\<open>SimpleCrossValidationExperiment.__init__\<close>\<close>

definition SimpleCrossValidationExperiment_init ::
  "jvm \<Rightarrow> string list \<Rightarrow> classifier list \<Rightarrow> bool \<Rightarrow> int \<Rightarrow> int \<Rightarrow> string option
     \<Rightarrow> simple_experiment jb" where
  "SimpleCrossValidationExperiment_init vm datasets0 classifiers0 classification0 runs0 folds0 result0 =
     (if runs0 < 1 then raise_jb (Exception ''Number of runs must be at least 1!'')
      else if folds0 < 2 then raise_jb (Exception ''Number of folds must be at least 2!'')
      else if length datasets0 = 0 then raise_jb (Exception ''No datasets provided!'')
      else if length classifiers0 = 0 then raise_jb (Exception ''No classifiers provided!'')
      else if result0 = None then raise_jb (Exception ''No filename for results provided!'')
      else bind_jb
        (SimpleExperiment_init vm datasets0 classifiers0 None classification0 runs0 result0)
        (\<lambda>self. return_jb (self\<lparr>cls := SimpleCrossValidationExperiment folds0\<rparr>)))"


text \<open>\<^verbatim>\<open>SimpleExperiment.configure_splitevaluator\<close>\<close>

definition configure_splitevaluator :: "jvm \<Rightarrow> simple_experiment \<Rightarrow> (handle \<times> jvalue) jb" where
  "configure_splitevaluator vm self =
     bind_jb
       (if classification self
        then make_instance vm ''weka/experiment/ClassifierSplitEvaluator'' ''()V'' []
        else make_instance vm ''weka/experiment/RegressionSplitEvaluator'' ''()V'' [])
     (\<lambda>speval. bind_jb
       (call vm (JObject speval) ''getClassifier'' ''()Lweka/classifiers/Classifier;'' [])
     (\<lambda>classifier. return_jb (speval, classifier)))"

text \<open>
  The property path both subclasses build after the producer and its split evaluator
  exist: the same statements in both \<^verbatim>\<open>configure_resultproducer\<close> methods, but for the
  name of the producer's class.
\<close>

definition property_path :: "jvm \<Rightarrow> string \<Rightarrow> handle \<Rightarrow> handle jb" where
  "property_path vm producer_class speval =
     bind_jb (find_class vm ''weka/experiment/PropertyNode'')
     (\<lambda>node_class. bind_jb (make_object_array vm 2 node_class)
     (\<lambda>prop_path. bind_jb (find_class vm producer_class)
     (\<lambda>cls1. bind_jb
       (make_instance vm ''java/beans/PropertyDescriptor''
          ''(Ljava/lang/String;Ljava/lang/Class;)V'' [JString ''splitEvaluator'', JObject cls1])
     (\<lambda>desc1. bind_jb
       (make_instance vm ''weka/experiment/PropertyNode''
          ''(Ljava/lang/Object;Ljava/beans/PropertyDescriptor;Ljava/lang/Class;)V''
          [JObject speval, JObject desc1, JObject cls1])
     (\<lambda>node1. bind_jb (set_object_array_element vm prop_path 0 (JObject node1))
     (\<lambda>_. bind_jb (get_object_class vm speval)
     (\<lambda>cls2. bind_jb
       (make_instance vm ''java/beans/PropertyDescriptor''
          ''(Ljava/lang/String;Ljava/lang/Class;)V'' [JString ''classifier'', JObject cls2])
     (\<lambda>desc2. bind_jb (get_object_class vm speval)
     (\<lambda>cls3. bind_jb
       (make_instance vm ''weka/experiment/PropertyNode''
          ''(Ljava/lang/Object;Ljava/beans/PropertyDescriptor;Ljava/lang/Class;)V''
          [JObject cls3, JObject desc2, JObject cls2])
     (\<lambda>node2. bind_jb (set_object_array_element vm prop_path 1 (JObject node2))
     (\<lambda>_. return_jb prop_path)))))))))))"

text \<open>
  \<^verbatim>\<open>configure_resultproducer\<close>, by the class of the experiment: the base class raises,
  the subclasses override it.
\<close>

definition configure_resultproducer :: "jvm \<Rightarrow> simple_experiment \<Rightarrow> (handle \<times> handle) jb" where
  "configure_resultproducer vm self =
     (case cls self of
        SimpleExperiment \<Rightarrow> raise_jb (Exception ''Not implemented!'')
      | SimpleCrossValidationExperiment folds \<Rightarrow>
          bind_jb (make_instance vm ''weka/experiment/CrossValidationResultProducer'' ''()V'' [])
          (\<lambda>rproducer. bind_jb
            (call vm (JObject rproducer) ''setNumFolds'' ''(I)V'' [JInt folds])
          (\<lambda>_. bind_jb (configure_splitevaluator vm self)
          (\<lambda>(speval, classifier). bind_jb
            (call vm (JObject rproducer) ''setSplitEvaluator''
               ''(Lweka/experiment/SplitEvaluator;)V'' [JObject speval])
          (\<lambda>_. bind_jb
            (property_path vm ''weka/experiment/CrossValidationResultProducer'' speval)
          (\<lambda>prop_path. return_jb (rproducer, prop_path))))))
      | SimpleRandomSplitExperiment percentage preserve_order \<Rightarrow>
          bind_jb (make_instance vm ''weka/experiment/RandomSplitResultProducer'' ''()V'' [])
          (\<lambda>rproducer. bind_jb
            (call vm (JObject rproducer) ''setRandomizeData'' ''(Z)V'' [JBool (\<not> preserve_order)])
          (\<lambda>_. bind_jb
            (call vm (JObject rproducer) ''setTrainPercent'' ''(D)V'' [JDouble percentage])
          (\<lambda>_. bind_jb (configure_splitevaluator vm self)
          (\<lambda>(speval, classifier). bind_jb
            (call vm (JObject rproducer) ''setSplitEvaluator''
               ''(Lweka/experiment/SplitEvaluator;)V'' [JObject speval])
          (\<lambda>_. bind_jb
            (property_path vm ''weka/experiment/RandomSplitResultProducer'' speval)
          (\<lambda>prop_path. return_jb (rproducer, prop_path))))))))"

text \<open>
  \<^verbatim>\<open>SimpleExperiment.setup\<close>, block by block as the comments of the source divide it.
  \<open>jobj\<close> is the foreign experiment that \<^verbatim>\<open>self.jobject\<close> holds.
\<close>

definition setup_basic_options :: "jvm \<Rightarrow> simple_experiment \<Rightarrow> handle \<Rightarrow> jvalue jb" where
  "setup_basic_options vm self jobj =
     bind_jb (find_class vm ''weka/classifiers/Classifier'')
     (\<lambda>c. bind_jb (make_object_array vm 0 c)
     (\<lambda>arr. bind_jb
       (call vm (JObject jobj) ''setPropertyArray'' ''(Ljava/lang/Object;)V'' [JObject arr])
     (\<lambda>_. bind_jb (call vm (JObject jobj) ''setUsePropertyIterator'' ''(Z)V'' [JBool True])
     (\<lambda>_. bind_jb (call vm (JObject jobj) ''setRunLower'' ''(I)V'' [JInt 1])
     (\<lambda>_. call vm (JObject jobj) ''setRunUpper'' ''(I)V'' [JInt (runs self)])))))"

definition setup_result_producer :: "jvm \<Rightarrow> simple_experiment \<Rightarrow> handle \<Rightarrow> jvalue jb" where
  "setup_result_producer vm self jobj =
     bind_jb (configure_resultproducer vm self)
     (\<lambda>(rproducer, prop_path). bind_jb
       (call vm (JObject jobj) ''setResultProducer'' ''(Lweka/experiment/ResultProducer;)V''
          [JObject rproducer])
     (\<lambda>_. call vm (JObject jobj) ''setPropertyPath'' ''([Lweka/experiment/PropertyNode;)V''
          [JObject prop_path]))"

text \<open>The loop \<^verbatim>\<open>for i, classifier in enumerate(self.classifiers)\<close>.\<close>

fun classifiers_loop :: "jvm \<Rightarrow> handle \<Rightarrow> nat \<Rightarrow> classifier list \<Rightarrow> jvalue jb" where
  "classifiers_loop vm arr i [] = return_jb JNull"
| "classifiers_loop vm arr i (ClassifierObject h # rest) =
     bind_jb (set_object_array_element vm arr i (JObject h))
     (\<lambda>_. classifiers_loop vm arr (Suc i) rest)"
| "classifiers_loop vm arr i (Commandline s # rest) =
     bind_jb (from_commandline vm s)
     (\<lambda>h. bind_jb (set_object_array_element vm arr i (JObject h))
     (\<lambda>_. classifiers_loop vm arr (Suc i) rest))"

definition setup_classifiers :: "jvm \<Rightarrow> simple_experiment \<Rightarrow> handle \<Rightarrow> jvalue jb" where
  "setup_classifiers vm self jobj =
     bind_jb (find_class vm ''weka/classifiers/Classifier'')
     (\<lambda>c. bind_jb (make_object_array vm (length (classifiers self)) c)
     (\<lambda>arr. bind_jb (classifiers_loop vm arr 0 (classifiers self))
     (\<lambda>_. call vm (JObject jobj) ''setPropertyArray'' ''(Ljava/lang/Object;)V'' [JObject arr])))"

text \<open>The loop \<^verbatim>\<open>for dataset in self.datasets\<close>.\<close>

fun datasets_loop :: "jvm \<Rightarrow> handle \<Rightarrow> string list \<Rightarrow> jvalue jb" where
  "datasets_loop vm model [] = return_jb JNull"
| "datasets_loop vm model (dataset # rest) =
     bind_jb (make_instance vm ''java/io/File'' ''(Ljava/lang/String;)V'' [JString dataset])
     (\<lambda>f. bind_jb
       (call vm (JObject model) ''addElement'' ''(Ljava/lang/Object;)V'' [JObject f])
     (\<lambda>_. datasets_loop vm model rest))"

definition setup_datasets :: "jvm \<Rightarrow> simple_experiment \<Rightarrow> handle \<Rightarrow> jvalue jb" where
  "setup_datasets vm self jobj =
     bind_jb (make_instance vm ''javax/swing/DefaultListModel'' ''()V'' [])
     (\<lambda>model. bind_jb (datasets_loop vm model (datasets self))
     (\<lambda>_. call vm (JObject jobj) ''setDatasets'' ''(Ljavax/swing/DefaultListModel;)V''
          [JObject model]))"

text \<open>
  The output file. In the last branch the message is concatenated with \<^verbatim>\<open>self.result\<close>
  itself, which is a type error of Python when the result is \<^verbatim>\<open>None\<close>.
\<close>

definition setup_output_file :: "jvm \<Rightarrow> simple_experiment \<Rightarrow> handle \<Rightarrow> jvalue jb" where
  "setup_output_file vm self jobj =
     bind_jb
       (if endswith (lower (str_opt (result self))) ''.arff''
        then make_instance vm ''weka/experiment/InstancesResultListener'' ''()V'' []
        else if endswith (lower (str_opt (result self))) ''.csv''
        then make_instance vm ''weka/experiment/CSVResultListener'' ''()V'' []
        else (case result self of
                None \<Rightarrow> raise_jb TypeError
              | Some r \<Rightarrow> raise_jb (Exception (''Unhandled output format for results: '' @ r))))
     (\<lambda>rlistener. bind_jb
       (make_instance vm ''java/io/File'' ''(Ljava/lang/String;)V''
          [case result self of None \<Rightarrow> JNull | Some r \<Rightarrow> JString r])
     (\<lambda>rfile. bind_jb
       (call vm (JObject rlistener) ''setOutputFile'' ''(Ljava/io/File;)V'' [JObject rfile])
     (\<lambda>_. call vm (JObject jobj) ''setResultListener'' ''(Lweka/experiment/ResultListener;)V''
          [JObject rlistener])))"

text \<open>
  \<^verbatim>\<open>SimpleExperiment.setup\<close>. The assignment to \<^verbatim>\<open>self.jobject\<close> is the only change of
  the Python object, and it stays when a later statement raises: the method returns the
  outcome, the object and the world.
\<close>

definition SimpleExperiment_setup ::
  "jvm \<Rightarrow> simple_experiment \<Rightarrow> world \<Rightarrow> (error + unit) \<times> simple_experiment \<times> world" where
  "SimpleExperiment_setup vm self w =
     (if jobject self \<noteq> None then (Inr (), self, w)
      else
        (case make_instance vm ''weka/experiment/Experiment'' ''()V'' [] w of
           (Inl e, w1) \<Rightarrow> (Inl e, self, w1)
         | (Inr jobj, w1) \<Rightarrow>
             (case bind_jb (setup_basic_options vm self jobj)
                    (\<lambda>_. bind_jb (setup_result_producer vm self jobj)
                    (\<lambda>_. bind_jb (setup_classifiers vm self jobj)
                    (\<lambda>_. bind_jb (setup_datasets vm self jobj)
                    (\<lambda>_. setup_output_file vm self jobj)))) w1 of
                (Inl e, w2) \<Rightarrow> (Inl e, self\<lparr>jobject := Some jobj\<rparr>, w2)
              | (Inr _, w2) \<Rightarrow> (Inr (), self\<lparr>jobject := Some jobj\<rparr>, w2))))"

text \<open>\<^verbatim>\<open>logger.info\<close>\<close>

definition logger_info :: "string \<Rightarrow> unit jb" where
  "logger_info msg w = (Inr (), w\<lparr>logged := logged w @ [msg]\<rparr>)"

text \<open>\<^verbatim>\<open>SimpleExperiment.run\<close>\<close>

definition run :: "jvm \<Rightarrow> simple_experiment \<Rightarrow> unit jb" where
  "run vm self =
     bind_jb (logger_info ''Initializing...'')
     (\<lambda>_. bind_jb (call vm (of_ref (jobject self)) ''initialize'' ''()V'' [])
     (\<lambda>_. bind_jb (logger_info ''Running...'')
     (\<lambda>_. bind_jb (call vm (of_ref (jobject self)) ''runExperiment'' ''()V'' [])
     (\<lambda>_. bind_jb (logger_info ''Finished...'')
     (\<lambda>_. bind_jb (call vm (of_ref (jobject self)) ''postProcess'' ''()V'' [])
     (\<lambda>_. return_jb ()))))))"

section \<open>Tester\<close>

record tester = java_object +
  columns_determined :: bool
  dataset_columns :: "string list option"
  run_column :: "string option"
  fold_column :: "string option"
  result_columns :: "string list option"

text \<open>
  The fields \<^verbatim>\<open>Tester.__init__\<close> assigns, for a tester that wraps the foreign object
  \<open>jobj\<close>.
\<close>

definition Tester_init :: "handle \<Rightarrow> tester" where
  "Tester_init jobj =
     \<lparr>jobject = Some jobj, columns_determined = False,
      dataset_columns = Some [''Key_Dataset''], run_column = Some ''Key_Run'',
      fold_column = Some ''Key_Fold'',
      result_columns = Some [''Key_Scheme'', ''Key_Scheme_options'', ''Key_Scheme_version_ID'']\<rparr>"

text \<open>
  \<^verbatim>\<open>Tester.set_instances\<close>: \<open>data\<close> is the \<^verbatim>\<open>Instances\<close> wrapper, its foreign object
  and its attribute names. The foreign tester holds the dataset from then on.
\<close>

definition set_instances ::
  "jvm \<Rightarrow> tester \<Rightarrow> handle \<times> dataset \<Rightarrow> world \<Rightarrow> (error + unit) \<times> tester \<times> world" where
  "set_instances vm self data w =
     (case call vm (of_ref (jobject self)) ''setInstances'' ''(Lweka/core/Instances;)V''
             [JObject (fst data)] w of
        (Inl e, w1) \<Rightarrow> (Inl e, self, w1)
      | (Inr _, w1) \<Rightarrow>
          (Inr (), self\<lparr>columns_determined := False\<rparr>, w1\<lparr>instances := Some (snd data)\<rparr>))"

text \<open>\<^verbatim>\<open>Tester.get_instances\<close>: the dataset the foreign tester holds, or \<^verbatim>\<open>None\<close>.\<close>

definition get_instances :: "jvm \<Rightarrow> tester \<Rightarrow> dataset option jb" where
  "get_instances vm self =
     bind_jb (call vm (of_ref (jobject self)) ''getInstances'' ''()Lweka/core/Instances;'' [])
     (\<lambda>_ w. (Inr (instances w), w))"

text \<open>The four setters of the column names.\<close>

definition set_dataset_columns :: "tester \<Rightarrow> string list \<Rightarrow> tester" where
  "set_dataset_columns self col_names = self\<lparr>dataset_columns := Some col_names\<rparr>"

definition set_run_column :: "tester \<Rightarrow> string option \<Rightarrow> tester" where
  "set_run_column self col_name = self\<lparr>run_column := col_name\<rparr>"

definition set_fold_column :: "tester \<Rightarrow> string option \<Rightarrow> tester" where
  "set_fold_column self col_name = self\<lparr>fold_column := col_name\<rparr>"

definition set_result_columns :: "tester \<Rightarrow> string list \<Rightarrow> tester" where
  "set_result_columns self col_names = self\<lparr>result_columns := Some col_names\<rparr>"

text \<open>
  Modelled from the spec: \<^verbatim>\<open>Instances.get_attribute_by_name\<close>, \<^verbatim>\<open>Attribute.get_index\<close> and
  the wrapper \<^verbatim>\<open>Range\<close> are defined in \<^verbatim>\<open>weka.core\<close>, which is not among the sources. A
  column name resolves to the first attribute of that name (section 4.4), an attribute
  knows its 0-based position, and a range wraps a new foreign \<^verbatim>\<open>weka.core.Range\<close> made
  from its string of 1-based indices.
\<close>

fun get_attribute_by_name :: "dataset \<Rightarrow> string \<Rightarrow> attribute option" where
  "get_attribute_by_name [] name = None"
| "get_attribute_by_name (a # rest) name =
     (if a = name then Some 0 else map_option Suc (get_attribute_by_name rest name))"

definition get_index :: "attribute \<Rightarrow> nat" where
  "get_index att = att"

definition Range_init :: "jvm \<Rightarrow> string \<Rightarrow> handle jb" where
  "Range_init vm ranges = make_instance vm ''weka/core/Range'' ''(Ljava/lang/String;)V'' [JString ranges]"

text \<open>
  The loop \<^verbatim>\<open>for name in self.dataset_columns\<close> of \<^verbatim>\<open>init_columns\<close> and its twin over
  \<^verbatim>\<open>self.result_columns\<close>, which differ in the message they raise: \<open>cols\<close> is the
  string built so far.
\<close>

fun columns_loop :: "string \<Rightarrow> dataset \<Rightarrow> string list \<Rightarrow> string \<Rightarrow> string jb" where
  "columns_loop not_found data [] cols = return_jb cols"
| "columns_loop not_found data (name # names) cols =
     (case get_attribute_by_name data name of
        None \<Rightarrow> raise_jb (Exception (not_found @ name))
      | Some att \<Rightarrow>
          columns_loop not_found data names
            ((if length cols > 0 then cols @ '','' else cols) @ str_nat (get_index att + 1)))"

text \<open>\<^verbatim>\<open>init_columns\<close> from the comment \<^verbatim>\<open># dataset\<close> to the last foreign call.\<close>

definition resolve_columns :: "jvm \<Rightarrow> tester \<Rightarrow> dataset \<Rightarrow> jvalue jb" where
  "resolve_columns vm self data =
     bind_jb
       (case dataset_columns self of
          None \<Rightarrow> raise_jb (Exception ''No dataset columns set!'')
        | Some names \<Rightarrow> columns_loop ''Dataset column not found: '' data names [])
     (\<lambda>cols. bind_jb (Range_init vm cols)
     (\<lambda>range. bind_jb
       (call vm (of_ref (jobject self)) ''setDatasetKeyColumns'' ''(Lweka/core/Range;)V''
          [JObject range])
     (\<lambda>_. bind_jb
       (case run_column self of
          None \<Rightarrow> raise_jb (Exception ''No run columnn set!'')
        | Some name \<Rightarrow>
            (case get_attribute_by_name data name of
               None \<Rightarrow> raise_jb (Exception (''Run column not found: '' @ name))
             | Some att \<Rightarrow>
                 call vm (of_ref (jobject self)) ''setRunColumn'' ''(I)V''
                   [JInt (int (get_index att))]))
     (\<lambda>_. bind_jb
       (case fold_column self of
          None \<Rightarrow> return_jb JNull
        | Some name \<Rightarrow>
            call vm (of_ref (jobject self)) ''setFoldColumn'' ''(I)V''
              [JInt (case get_attribute_by_name data name of
                       None \<Rightarrow> - 1
                     | Some att \<Rightarrow> int (get_index att))])
     (\<lambda>_. bind_jb
       (case result_columns self of
          None \<Rightarrow> raise_jb (Exception ''No reset columns set!'')
        | Some names \<Rightarrow> columns_loop ''Result column not found: '' data names [])
     (\<lambda>cols. bind_jb (Range_init vm cols)
     (\<lambda>range.
       call vm (of_ref (jobject self)) ''setResultsetKeyColumns'' ''(Lweka/core/Range;)V''
         [JObject range])))))))"

text \<open>\<^verbatim>\<open>Tester.init_columns\<close>\<close>

definition init_columns ::
  "jvm \<Rightarrow> tester \<Rightarrow> world \<Rightarrow> (error + unit) \<times> tester \<times> world" where
  "init_columns vm self w =
     (if columns_determined self then (Inr (), self, w)
      else
        (case get_instances vm self w of
           (Inl e, w1) \<Rightarrow> (Inl e, self, w1)
         | (Inr None, w1) \<Rightarrow>
             (Inr (), self,
              w1\<lparr>stdout := stdout w1 @ [''No instances set, cannot determine columns!'']\<rparr>)
         | (Inr (Some data), w1) \<Rightarrow>
             (case resolve_columns vm self data w1 of
                (Inl e, w2) \<Rightarrow> (Inl e, self, w2)
              | (Inr _, w2) \<Rightarrow> (Inr (), self\<lparr>columns_determined := True\<rparr>, w2))))"

text \<open>The four queries.\<close>

definition header ::
  "jvm \<Rightarrow> tester \<Rightarrow> int \<Rightarrow> world \<Rightarrow> (error + jvalue) \<times> tester \<times> world" where
  "header vm self comparison_column w =
     (case init_columns vm self w of
        (Inl e, self1, w1) \<Rightarrow> (Inl e, self1, w1)
      | (Inr _, self1, w1) \<Rightarrow>
          (case call vm (of_ref (jobject self1)) ''header'' ''(I)Ljava/lang/String;''
                  [JInt comparison_column] w1 of
             (r, w2) \<Rightarrow> (r, self1, w2)))"

definition multi_resultset_full ::
  "jvm \<Rightarrow> tester \<Rightarrow> int \<Rightarrow> int \<Rightarrow> world \<Rightarrow> (error + jvalue) \<times> tester \<times> world" where
  "multi_resultset_full vm self base_resultset comparison_column w =
     (case call vm (of_ref (jobject self)) ''multiResultsetFull'' ''(II)Ljava/lang/String;''
             [JInt base_resultset, JInt comparison_column] w of
        (r, w1) \<Rightarrow> (r, self, w1))"

definition multi_resultset_ranking ::
  "jvm \<Rightarrow> tester \<Rightarrow> int \<Rightarrow> world \<Rightarrow> (error + jvalue) \<times> tester \<times> world" where
  "multi_resultset_ranking vm self comparison_column w =
     (case call vm (of_ref (jobject self)) ''multiResultsetRanking'' ''(I)Ljava/lang/String;''
             [JInt comparison_column] w of
        (r, w1) \<Rightarrow> (r, self, w1))"

definition multi_resultset_summary ::
  "jvm \<Rightarrow> tester \<Rightarrow> int \<Rightarrow> world \<Rightarrow> (error + jvalue) \<times> tester \<times> world" where
  "multi_resultset_summary vm self comparison_column w =
     (case call vm (of_ref (jobject self)) ''multiResultsetSummary'' ''(I)Ljava/lang/String;''
             [JInt comparison_column] w of
        (r, w1) \<Rightarrow> (r, self, w1))"

section \<open>Notions the properties are stated with\<close>

text \<open>A Java side on which no foreign call throws.\<close>

definition never_throws :: "jvm \<Rightarrow> bool" where
  "never_throws vm = (\<forall>tr c. \<exists>v. vm tr c = Returns v)"

text \<open>A bridge computation that returns, and only appends calls to the trace.\<close>

definition extends :: "'a jb \<Rightarrow> bool" where
  "extends m = (\<forall>w. \<exists>x tr. m w = (Inr x, w\<lparr>calls := calls w @ tr\<rparr>))"

text \<open>
  The four foreign calls that attach a result listener of class \<open>listener_class\<close>
  to the experiment \<open>jobj\<close>, writing to the file \<open>r\<close>. The listener is the
  object \<open>rlistener\<close>, the file the object made right after it.
\<close>

definition listener_calls :: "string \<Rightarrow> handle \<Rightarrow> handle \<Rightarrow> string option \<Rightarrow> jcall list" where
  "listener_calls listener_class jobj rlistener r =
     [MakeInstance listener_class ''()V'' [],
      MakeInstance ''java/io/File'' ''(Ljava/lang/String;)V''
        [case r of None \<Rightarrow> JNull | Some s \<Rightarrow> JString s],
      Call (JObject rlistener) ''setOutputFile'' ''(Ljava/io/File;)V'' [JObject (Suc rlistener)],
      Call (JObject jobj) ''setResultListener'' ''(Lweka/experiment/ResultListener;)V''
        [JObject rlistener]]"

text \<open>
  The world before any foreign call, and the experiment of the end-to-end scenario of
  the specification, with the result file as a parameter.
\<close>

definition empty_world :: world where
  "empty_world = \<lparr>calls = [], instances = None, stdout = [], logged = []\<rparr>"

definition scenario :: "string \<Rightarrow> simple_experiment" where
  "scenario r =
     \<lparr>jobject = None, classification = True, runs = 10, datasets = [''a.arff'', ''b.arff''],
      classifiers = [Commandline ''weka.classifiers.trees.J48''], result = Some r,
      cls = SimpleCrossValidationExperiment 10\<rparr>"

text \<open>A Java side on which the method \<open>meth\<close> throws and every other call returns.\<close>

definition throws_in :: "string \<Rightarrow> jvm" where
  "throws_in meth tr c =
     (case c of
        Call obj m sig args \<Rightarrow> if m = meth then Throws ''failed'' else Returns JNull
      | _ \<Rightarrow> Returns JNull)"

text \<open>
  The 0-based position of the first attribute called \<open>name\<close>, Python's
  \<^verbatim>\<open>sep.join(xs)\<close>, and the range string that lists the 1-based positions of the
  attributes called \<open>names\<close>.
\<close>

definition position :: "dataset \<Rightarrow> string \<Rightarrow> nat" where
  "position data name = length (takeWhile (\<lambda>a. a \<noteq> name) data)"

fun join :: "string \<Rightarrow> string list \<Rightarrow> string" where
  "join sep [] = []"
| "join sep [x] = x"
| "join sep (x # y # ys) = x @ sep @ join sep (y # ys)"

definition one_based_range :: "dataset \<Rightarrow> string list \<Rightarrow> string" where
  "one_based_range data names = join '','' (map (\<lambda>name. str_nat (position data name + 1)) names)"

text \<open>The foreign calls that compute statistics: those of the four queries.\<close>

definition is_statistics_call :: "jcall \<Rightarrow> bool" where
  "is_statistics_call c =
     (case c of
        Call obj m sig args \<Rightarrow>
          m = ''header'' \<or> m = ''multiResultsetFull'' \<or> m = ''multiResultsetRanking''
          \<or> m = ''multiResultsetSummary''
      | _ \<Rightarrow> False)"

text \<open>
  A Java side on which every call returns the string \<open>report\<close>; the attributes of a
  result file as an experiment writes it, with one measure; the world in which the
  foreign tester holds the dataset \<open>data\<close> and no foreign call was made; and the
  foreign calls by which a tester with the column names of \<^verbatim>\<open>Tester.__init__\<close> resolves
  them on that result file.
\<close>

definition reporting :: jvm where
  "reporting tr c = Returns (JString ''report'')"

definition result_file :: dataset where
  "result_file =
     [''Key_Dataset'', ''Key_Run'', ''Key_Fold'', ''Key_Scheme'', ''Key_Scheme_options'',
      ''Key_Scheme_version_ID'', ''Percent_correct'']"

definition attached :: "dataset \<Rightarrow> world" where
  "attached data = \<lparr>calls = [], instances = Some data, stdout = [], logged = []\<rparr>"

definition resolution_calls :: "jcall list" where
  "resolution_calls =
     [Call (JObject 0) ''getInstances'' ''()Lweka/core/Instances;'' [],
      MakeInstance ''weka/core/Range'' ''(Ljava/lang/String;)V'' [JString ''1''],
      Call (JObject 0) ''setDatasetKeyColumns'' ''(Lweka/core/Range;)V'' [JObject 1],
      Call (JObject 0) ''setRunColumn'' ''(I)V'' [JInt 1],
      Call (JObject 0) ''setFoldColumn'' ''(I)V'' [JInt 2],
      MakeInstance ''weka/core/Range'' ''(Ljava/lang/String;)V'' [JString ''4,5,6''],
      Call (JObject 0) ''setResultsetKeyColumns'' ''(Lweka/core/Range;)V'' [JObject 5]]"

section \<open>Properties\<close>

lemma extends_return: "extends (return_jb x)"
  unfolding extends_def return_jb_def
proof
  fix w :: world
  show "\<exists>y tr. (Inr x, w) = (Inr y, w\<lparr>calls := calls w @ tr\<rparr>)"
    by (rule exI [of _ x], rule exI [of _ "[]"]) simp
qed

lemma extends_bind:
  assumes "extends m" and "\<And>x. extends (f x)"
  shows "extends (bind_jb m f)"
  unfolding extends_def
proof
  fix w
  from assms(1) obtain x tr where m: "m w = (Inr x, w\<lparr>calls := calls w @ tr\<rparr>)"
    unfolding extends_def by blast
  from assms(2) obtain y tr' where
    f: "f x (w\<lparr>calls := calls w @ tr\<rparr>) = (Inr y, w\<lparr>calls := calls w @ tr\<rparr>\<lparr>calls := calls (w\<lparr>calls := calls w @ tr\<rparr>) @ tr'\<rparr>)"
    unfolding extends_def by blast
  have "bind_jb m f w = (Inr y, w\<lparr>calls := calls w @ (tr @ tr')\<rparr>)"
    using m f by (simp add: bind_jb_def)
  then show "\<exists>x tr. bind_jb m f w = (Inr x, w\<lparr>calls := calls w @ tr\<rparr>)"
    by (intro exI)
qed

lemma extends_foreign: "never_throws vm \<Longrightarrow> extends (foreign vm c)"
  unfolding extends_def never_throws_def foreign_def
proof
  fix w
  assume "\<forall>tr c. \<exists>v. vm tr c = Returns v"
  then obtain v where "vm (calls w) c = Returns v" by blast
  then show "\<exists>x tr. (case vm (calls w) c of
         Throws msg \<Rightarrow> (Inl (JavaException msg), w\<lparr>calls := calls w @ [c]\<rparr>)
       | Returns v \<Rightarrow> (Inr v, w\<lparr>calls := calls w @ [c]\<rparr>)) = (Inr x, w\<lparr>calls := calls w @ tr\<rparr>)"
    by (intro exI [of _ v] exI [of _ "[c]"]) simp
qed

lemma extends_foreign_new: "never_throws vm \<Longrightarrow> extends (foreign_new vm c)"
proof -
  assume nt: "never_throws vm"
  show ?thesis
    unfolding extends_def
  proof
    fix w
    from extends_foreign [OF nt, of c] obtain x tr where
      "foreign vm c w = (Inr x, w\<lparr>calls := calls w @ tr\<rparr>)"
      unfolding extends_def by blast
    then have "foreign_new vm c w = (Inr (length (calls w)), w\<lparr>calls := calls w @ tr\<rparr>)"
      by (simp add: foreign_new_def)
    then show "\<exists>x tr. foreign_new vm c w = (Inr x, w\<lparr>calls := calls w @ tr\<rparr>)"
      by (intro exI)
  qed
qed

lemma extends_call: "never_throws vm \<Longrightarrow> extends (call vm obj meth sig args)"
  unfolding call_def by (rule extends_foreign)

lemma extends_make_instance: "never_throws vm \<Longrightarrow> extends (make_instance vm c sig args)"
  unfolding make_instance_def by (rule extends_foreign_new)

lemma extends_find_class: "never_throws vm \<Longrightarrow> extends (find_class vm name)"
  unfolding find_class_def by (rule extends_foreign_new)

lemma extends_make_object_array: "never_throws vm \<Longrightarrow> extends (make_object_array vm n c)"
  unfolding make_object_array_def by (rule extends_foreign_new)

lemma extends_get_object_class: "never_throws vm \<Longrightarrow> extends (get_object_class vm obj)"
  unfolding get_object_class_def by (rule extends_foreign_new)

lemma extends_set_object_array_element:
  "never_throws vm \<Longrightarrow> extends (set_object_array_element vm arr i v)"
  unfolding set_object_array_element_def by (rule extends_foreign)

lemma extends_from_commandline: "never_throws vm \<Longrightarrow> extends (from_commandline vm s)"
  unfolding from_commandline_def by (rule extends_foreign_new)

lemmas extends_intros =
  extends_return extends_bind extends_call extends_make_instance extends_find_class
  extends_make_object_array extends_get_object_class extends_set_object_array_element
  extends_from_commandline

lemma extends_configure_splitevaluator:
  "never_throws vm \<Longrightarrow> extends (configure_splitevaluator vm self)"
  unfolding configure_splitevaluator_def
  by (cases "classification self") (simp_all add: extends_intros)

lemma extends_property_path:
  "never_throws vm \<Longrightarrow> extends (property_path vm c speval)"
  unfolding property_path_def
  by (intro extends_intros) 

lemma extends_configure_resultproducer:
  "never_throws vm \<Longrightarrow> cls self \<noteq> SimpleExperiment \<Longrightarrow> extends (configure_resultproducer vm self)"
  unfolding configure_resultproducer_def
  by (cases "cls self")
    (auto intro!: extends_intros extends_configure_splitevaluator extends_property_path
      simp: split_def)

lemma extends_classifiers_loop:
  "never_throws vm \<Longrightarrow> extends (classifiers_loop vm arr i cs)"
  by (induction vm arr i cs rule: classifiers_loop.induct) (simp_all add: extends_intros)

lemma extends_datasets_loop:
  "never_throws vm \<Longrightarrow> extends (datasets_loop vm model ds)"
  by (induction ds) (simp_all add: extends_intros)

lemma extends_setup_basic_options:
  "never_throws vm \<Longrightarrow> extends (setup_basic_options vm self jobj)"
  unfolding setup_basic_options_def by (intro extends_intros)

lemma extends_setup_result_producer:
  "never_throws vm \<Longrightarrow> cls self \<noteq> SimpleExperiment \<Longrightarrow>
   extends (setup_result_producer vm self jobj)"
  unfolding setup_result_producer_def
  by (auto intro!: extends_intros extends_configure_resultproducer simp: split_def)

lemma extends_setup_classifiers:
  "never_throws vm \<Longrightarrow> extends (setup_classifiers vm self jobj)"
  unfolding setup_classifiers_def by (intro extends_intros extends_classifiers_loop)

lemma extends_setup_datasets:
  "never_throws vm \<Longrightarrow> extends (setup_datasets vm self jobj)"
  unfolding setup_datasets_def by (intro extends_intros extends_datasets_loop)

lemma never_throws_Throws [simp]: "never_throws vm \<Longrightarrow> vm tr c \<noteq> Throws m"
  unfolding never_throws_def
  by (metis jresult.distinct(1))

lemma bind_extends:
  assumes "extends m"
  obtains x tr where "bind_jb m f w = f x (w\<lparr>calls := calls w @ tr\<rparr>)"
proof -
  from assms obtain x tr where "m w = (Inr x, w\<lparr>calls := calls w @ tr\<rparr>)"
    unfolding extends_def by blast
  then have "bind_jb m f w = f x (w\<lparr>calls := calls w @ tr\<rparr>)"
    by (simp add: bind_jb_def)
  then show thesis by (rule that)
qed

lemma setup_output_file_listener:
  assumes nt: "never_throws vm"
    and r: "result self = Some r"
    and sel: "endswith (lower r) ''.arff'' \<and> c = ''weka/experiment/InstancesResultListener''
       \<or> \<not> endswith (lower r) ''.arff'' \<and> endswith (lower r) ''.csv'' \<and>
         c = ''weka/experiment/CSVResultListener''"
  shows "\<exists>v. setup_output_file vm self jobj w =
     (Inr v, w\<lparr>calls := calls w @ listener_calls c jobj (length (calls w)) (Some r)\<rparr>)"
proof -
  obtain v where v: "vm (calls w @
      [MakeInstance c ''()V'' [],
       MakeInstance ''java/io/File'' ''(Ljava/lang/String;)V'' [JString r],
       Call (JObject (length (calls w))) ''setOutputFile'' ''(Ljava/io/File;)V''
         [JObject (Suc (length (calls w)))]])
     (Call (JObject jobj) ''setResultListener'' ''(Lweka/experiment/ResultListener;)V''
        [JObject (length (calls w))]) = Returns v"
    using nt unfolding never_throws_def by blast
  have "setup_output_file vm self jobj w =
     (Inr v, w\<lparr>calls := calls w @ listener_calls c jobj (length (calls w)) (Some r)\<rparr>)"
    using nt v r sel
    by (auto simp: setup_output_file_def bind_jb_def make_instance_def foreign_new_def
        foreign_def call_def listener_calls_def str_opt_def split: jresult.splits)
  then show ?thesis ..
qed

lemma setup_output_file_unhandled:
  assumes "\<not> endswith (lower (str_opt (result self))) ''.arff''"
    and "\<not> endswith (lower (str_opt (result self))) ''.csv''"
  shows "setup_output_file vm self jobj w =
     (Inl (case result self of None \<Rightarrow> TypeError
           | Some r \<Rightarrow> Exception (''Unhandled output format for results: '' @ r)), w)"
  using assms
  by (simp add: setup_output_file_def bind_jb_def raise_jb_def split: option.splits)

lemma setup_chain:
  assumes nt: "never_throws vm" and j: "jobject self = None" and c: "cls self \<noteq> SimpleExperiment"
  shows "\<exists>tr. SimpleExperiment_setup vm self w =
     (case setup_output_file vm self (length (calls w)) (w\<lparr>calls := calls w @ tr\<rparr>) of
        (Inl e, w2) \<Rightarrow> (Inl e, self\<lparr>jobject := Some (length (calls w))\<rparr>, w2)
      | (Inr _, w2) \<Rightarrow> (Inr (), self\<lparr>jobject := Some (length (calls w))\<rparr>, w2))"
proof -
  let ?jobj = "length (calls w)"
  let ?c0 = "MakeInstance ''weka/experiment/Experiment'' ''()V'' []"
  let ?w1 = "w\<lparr>calls := calls w @ [?c0]\<rparr>"
  have mk: "make_instance vm ''weka/experiment/Experiment'' ''()V'' [] w = (Inr ?jobj, ?w1)"
    using nt by (simp add: make_instance_def foreign_new_def foreign_def split: jresult.splits)
  let ?rest4 = "\<lambda>_::jvalue. setup_output_file vm self ?jobj"
  let ?rest3 = "\<lambda>_::jvalue. bind_jb (setup_datasets vm self ?jobj) ?rest4"
  let ?rest2 = "\<lambda>_::jvalue. bind_jb (setup_classifiers vm self ?jobj) ?rest3"
  let ?rest1 = "\<lambda>_::jvalue. bind_jb (setup_result_producer vm self ?jobj) ?rest2"
  obtain x1 t1 where s1: "bind_jb (setup_basic_options vm self ?jobj) ?rest1 ?w1
       = ?rest1 x1 (?w1\<lparr>calls := calls ?w1 @ t1\<rparr>)"
    using bind_extends [OF extends_setup_basic_options [OF nt]] by blast
  let ?w2 = "?w1\<lparr>calls := calls ?w1 @ t1\<rparr>"
  obtain x2 t2 where s2: "bind_jb (setup_result_producer vm self ?jobj) ?rest2 ?w2
       = ?rest2 x2 (?w2\<lparr>calls := calls ?w2 @ t2\<rparr>)"
    using bind_extends [OF extends_setup_result_producer [OF nt c]] by blast
  let ?w3 = "?w2\<lparr>calls := calls ?w2 @ t2\<rparr>"
  obtain x3 t3 where s3: "bind_jb (setup_classifiers vm self ?jobj) ?rest3 ?w3
       = ?rest3 x3 (?w3\<lparr>calls := calls ?w3 @ t3\<rparr>)"
    using bind_extends [OF extends_setup_classifiers [OF nt]] by blast
  let ?w4 = "?w3\<lparr>calls := calls ?w3 @ t3\<rparr>"
  obtain x4 t4 where s4: "bind_jb (setup_datasets vm self ?jobj) ?rest4 ?w4
       = ?rest4 x4 (?w4\<lparr>calls := calls ?w4 @ t4\<rparr>)"
    using bind_extends [OF extends_setup_datasets [OF nt]] by blast
  let ?tr = "?c0 # t1 @ t2 @ t3 @ t4"
  have chain: "bind_jb (setup_basic_options vm self ?jobj) ?rest1 ?w1
      = setup_output_file vm self ?jobj (w\<lparr>calls := calls w @ ?tr\<rparr>)"
    using s1 s2 s3 s4 by simp
  have "SimpleExperiment_setup vm self w =
     (case setup_output_file vm self ?jobj (w\<lparr>calls := calls w @ ?tr\<rparr>) of
        (Inl e, w2) \<Rightarrow> (Inl e, self\<lparr>jobject := Some ?jobj\<rparr>, w2)
      | (Inr _, w2) \<Rightarrow> (Inr (), self\<lparr>jobject := Some ?jobj\<rparr>, w2))"
    using j mk chain by (simp add: SimpleExperiment_setup_def)
  then show ?thesis ..
qed

lemma setup_listener:
  assumes nt: "never_throws vm" and j: "jobject self = None" and c: "cls self \<noteq> SimpleExperiment"
    and r: "result self = Some r"
    and sel: "endswith (lower r) ''.arff'' \<and> c = ''weka/experiment/InstancesResultListener''
       \<or> \<not> endswith (lower r) ''.arff'' \<and> endswith (lower r) ''.csv'' \<and>
         c = ''weka/experiment/CSVResultListener''"
  shows "\<exists>tr. SimpleExperiment_setup vm self w =
     (Inr (), self\<lparr>jobject := Some (length (calls w))\<rparr>,
      w\<lparr>calls := calls w @ tr @
        listener_calls c (length (calls w)) (length (calls w) + length tr) (Some r)\<rparr>)"
proof -
  from setup_chain [OF nt j c, of w] obtain tr where
    tr: "SimpleExperiment_setup vm self w =
     (case setup_output_file vm self (length (calls w)) (w\<lparr>calls := calls w @ tr\<rparr>) of
        (Inl e, w2) \<Rightarrow> (Inl e, self\<lparr>jobject := Some (length (calls w))\<rparr>, w2)
      | (Inr _, w2) \<Rightarrow> (Inr (), self\<lparr>jobject := Some (length (calls w))\<rparr>, w2))" ..
  from setup_output_file_listener [OF nt r sel, of "length (calls w)" "w\<lparr>calls := calls w @ tr\<rparr>"]
  obtain v where "setup_output_file vm self (length (calls w)) (w\<lparr>calls := calls w @ tr\<rparr>) =
     (Inr v, w\<lparr>calls := calls w @ tr\<rparr>\<lparr>calls := calls (w\<lparr>calls := calls w @ tr\<rparr>) @
        listener_calls c (length (calls w)) (length (calls (w\<lparr>calls := calls w @ tr\<rparr>))) (Some r)\<rparr>)" ..
  with tr have "SimpleExperiment_setup vm self w =
     (Inr (), self\<lparr>jobject := Some (length (calls w))\<rparr>,
      w\<lparr>calls := calls w @ tr @
        listener_calls c (length (calls w)) (length (calls w) + length tr) (Some r)\<rparr>)"
    by simp
  then show ?thesis ..
qed

lemma setup_unhandled:
  assumes nt: "never_throws vm" and j: "jobject self = None" and c: "cls self \<noteq> SimpleExperiment"
    and "\<not> endswith (lower (str_opt (result self))) ''.arff''"
    and "\<not> endswith (lower (str_opt (result self))) ''.csv''"
  shows "fst (SimpleExperiment_setup vm self w) =
     Inl (case result self of None \<Rightarrow> TypeError
          | Some r \<Rightarrow> Exception (''Unhandled output format for results: '' @ r))"
proof -
  from setup_chain [OF nt j c, of w] obtain tr where
    tr: "SimpleExperiment_setup vm self w =
     (case setup_output_file vm self (length (calls w)) (w\<lparr>calls := calls w @ tr\<rparr>) of
        (Inl e, w2) \<Rightarrow> (Inl e, self\<lparr>jobject := Some (length (calls w))\<rparr>, w2)
      | (Inr _, w2) \<Rightarrow> (Inr (), self\<lparr>jobject := Some (length (calls w))\<rparr>, w2))" ..
  show ?thesis
    by (simp add: tr setup_output_file_unhandled [OF assms(4,5)])
qed

lemma lower_suffix_arff: "lower ''.arff'' = ''.arff''"
  by (simp add: lower_def lower_char_def)

lemma lower_suffix_csv: "lower ''.csv'' = ''.csv''"
  by (simp add: lower_def lower_char_def)

lemma endswith_lower: "endswith s suffix \<Longrightarrow> endswith (lower s) (lower suffix)"
proof -
  assume "endswith s suffix"
  then have "take (length suffix) (rev s) = rev suffix" by (simp add: endswith_def)
  then have "map lower_char (take (length suffix) (rev s)) = map lower_char (rev suffix)" by simp
  then show ?thesis by (simp add: endswith_def lower_def take_map rev_map)
qed

lemma endswith_arff_not_csv: "endswith s ''.arff'' \<Longrightarrow> \<not> endswith s ''.csv''"
  by (cases "rev s") (auto simp: endswith_def)

text \<open>
  Claim C4. On a Java side where no call throws, \<^verbatim>\<open>setup()\<close> of an experiment of one of
  the two subclasses that has no handle yet ends, for a result path ending in \<open>.arff\<close>,
  with making an \<open>InstancesResultListener\<close> and attaching it to the experiment, for a
  path ending in \<open>.csv\<close> with making and attaching a \<open>CSVResultListener\<close>, and raises
  the error \<open>Unhandled output format for results\<close> for a path with another extension
  (compared without regard to case).
\<close>

theorem setup_selects_listener:
  assumes "never_throws vm" and "jobject self = None" and "cls self \<noteq> SimpleExperiment"
    and "result self = Some r"
  shows "(endswith r ''.arff'' \<longrightarrow>
          (\<exists>tr. SimpleExperiment_setup vm self w =
             (Inr (), self\<lparr>jobject := Some (length (calls w))\<rparr>,
              w\<lparr>calls := calls w @ tr @
                listener_calls ''weka/experiment/InstancesResultListener'' (length (calls w))
                  (length (calls w) + length tr) (Some r)\<rparr>)))
       \<and> (endswith r ''.csv'' \<longrightarrow>
          (\<exists>tr. SimpleExperiment_setup vm self w =
             (Inr (), self\<lparr>jobject := Some (length (calls w))\<rparr>,
              w\<lparr>calls := calls w @ tr @
                listener_calls ''weka/experiment/CSVResultListener'' (length (calls w))
                  (length (calls w) + length tr) (Some r)\<rparr>)))
       \<and> (\<not> endswith (lower r) ''.arff'' \<and> \<not> endswith (lower r) ''.csv'' \<longrightarrow>
          fst (SimpleExperiment_setup vm self w) =
            Inl (Exception (''Unhandled output format for results: '' @ r)))"
proof (intro conjI impI)
  assume "endswith r ''.arff''"
  then have "endswith (lower r) ''.arff''"
    using endswith_lower [of r "''.arff''"] by (simp add: lower_suffix_arff)
  then show "\<exists>tr. SimpleExperiment_setup vm self w =
             (Inr (), self\<lparr>jobject := Some (length (calls w))\<rparr>,
              w\<lparr>calls := calls w @ tr @
                listener_calls ''weka/experiment/InstancesResultListener'' (length (calls w))
                  (length (calls w) + length tr) (Some r)\<rparr>)"
    using setup_listener [OF assms, of "''weka/experiment/InstancesResultListener''" w] by blast
next
  assume "endswith r ''.csv''"
  then have c: "endswith (lower r) ''.csv''"
    using endswith_lower [of r "''.csv''"] by (simp add: lower_suffix_csv)
  then have "\<not> endswith (lower r) ''.arff''"
    using endswith_arff_not_csv by blast
  with c show "\<exists>tr. SimpleExperiment_setup vm self w =
             (Inr (), self\<lparr>jobject := Some (length (calls w))\<rparr>,
              w\<lparr>calls := calls w @ tr @
                listener_calls ''weka/experiment/CSVResultListener'' (length (calls w))
                  (length (calls w) + length tr) (Some r)\<rparr>)"
    using setup_listener [OF assms, of "''weka/experiment/CSVResultListener''" w] by blast
next
  assume "\<not> endswith (lower r) ''.arff'' \<and> \<not> endswith (lower r) ''.csv''"
  then show "fst (SimpleExperiment_setup vm self w) =
            Inl (Exception (''Unhandled output format for results: '' @ r))"
    using setup_unhandled [OF assms(1-3), of w] assms(4) by (simp add: str_opt_def)
qed

text \<open>
  Claim C9. The extension is matched on the lowercased path: a path whose lowercased
  form ends in \<open>.arff\<close> gets the \<open>InstancesResultListener\<close>, one whose lowercased
  form ends in \<open>.csv\<close> the \<open>CSVResultListener\<close>, and \<^verbatim>\<open>setup()\<close> returns without an
  error in both cases.
\<close>

theorem setup_extension_case_insensitive:
  assumes "never_throws vm" and "jobject self = None" and "cls self \<noteq> SimpleExperiment"
    and "result self = Some r"
  shows "(endswith (lower r) ''.arff'' \<longrightarrow>
          (\<exists>tr. SimpleExperiment_setup vm self w =
             (Inr (), self\<lparr>jobject := Some (length (calls w))\<rparr>,
              w\<lparr>calls := calls w @ tr @
                listener_calls ''weka/experiment/InstancesResultListener'' (length (calls w))
                  (length (calls w) + length tr) (Some r)\<rparr>)))
       \<and> (endswith (lower r) ''.csv'' \<longrightarrow>
          (\<exists>tr. SimpleExperiment_setup vm self w =
             (Inr (), self\<lparr>jobject := Some (length (calls w))\<rparr>,
              w\<lparr>calls := calls w @ tr @
                listener_calls ''weka/experiment/CSVResultListener'' (length (calls w))
                  (length (calls w) + length tr) (Some r)\<rparr>)))"
proof (intro conjI impI)
  assume "endswith (lower r) ''.arff''"
  then show "\<exists>tr. SimpleExperiment_setup vm self w =
             (Inr (), self\<lparr>jobject := Some (length (calls w))\<rparr>,
              w\<lparr>calls := calls w @ tr @
                listener_calls ''weka/experiment/InstancesResultListener'' (length (calls w))
                  (length (calls w) + length tr) (Some r)\<rparr>)"
    using setup_listener [OF assms, of "''weka/experiment/InstancesResultListener''" w] by blast
next
  assume c: "endswith (lower r) ''.csv''"
  then have "\<not> endswith (lower r) ''.arff''"
    using endswith_arff_not_csv by blast
  with c show "\<exists>tr. SimpleExperiment_setup vm self w =
             (Inr (), self\<lparr>jobject := Some (length (calls w))\<rparr>,
              w\<lparr>calls := calls w @ tr @
                listener_calls ''weka/experiment/CSVResultListener'' (length (calls w))
                  (length (calls w) + length tr) (Some r)\<rparr>)"
    using setup_listener [OF assms, of "''weka/experiment/CSVResultListener''" w] by blast
qed

lemma scenario_constructed:
  "SimpleCrossValidationExperiment_init vm [''a.arff'', ''b.arff'']
     [Commandline ''weka.classifiers.trees.J48''] True 10 10 (Some r) w = (Inr (scenario r), w)"
  by (simp add: SimpleCrossValidationExperiment_init_def SimpleExperiment_init_def bind_jb_def
      return_jb_def scenario_def)

theorem setup_selects_listener_witness:
  "(\<exists>tr. SimpleExperiment_setup (\<lambda>tr c. Returns JNull) (scenario ''out.arff'') empty_world =
      (Inr (), (scenario ''out.arff'')\<lparr>jobject := Some 0\<rparr>,
       empty_world\<lparr>calls := tr @
         listener_calls ''weka/experiment/InstancesResultListener'' 0 (length tr) (Some ''out.arff'')\<rparr>))
   \<and> (\<exists>tr. SimpleExperiment_setup (\<lambda>tr c. Returns JNull) (scenario ''out.csv'') empty_world =
      (Inr (), (scenario ''out.csv'')\<lparr>jobject := Some 0\<rparr>,
       empty_world\<lparr>calls := tr @
         listener_calls ''weka/experiment/CSVResultListener'' 0 (length tr) (Some ''out.csv'')\<rparr>))
   \<and> fst (SimpleExperiment_setup (\<lambda>tr c. Returns JNull) (scenario ''out.txt'') empty_world) =
        Inl (Exception ''Unhandled output format for results: out.txt'')"
  using setup_selects_listener [of "\<lambda>tr c. Returns JNull" "scenario ''out.arff''" "''out.arff''" empty_world]
    setup_selects_listener [of "\<lambda>tr c. Returns JNull" "scenario ''out.csv''" "''out.csv''" empty_world]
    setup_selects_listener [of "\<lambda>tr c. Returns JNull" "scenario ''out.txt''" "''out.txt''" empty_world]
  by (simp add: never_throws_def scenario_def empty_world_def endswith_def lower_def lower_char_def)

theorem setup_extension_case_insensitive_witness:
  "(\<exists>tr. SimpleExperiment_setup (\<lambda>tr c. Returns JNull) (scenario ''OUT.ARFF'') empty_world =
      (Inr (), (scenario ''OUT.ARFF'')\<lparr>jobject := Some 0\<rparr>,
       empty_world\<lparr>calls := tr @
         listener_calls ''weka/experiment/InstancesResultListener'' 0 (length tr) (Some ''OUT.ARFF'')\<rparr>))
   \<and> (\<exists>tr. SimpleExperiment_setup (\<lambda>tr c. Returns JNull) (scenario ''Results.CSV'') empty_world =
      (Inr (), (scenario ''Results.CSV'')\<lparr>jobject := Some 0\<rparr>,
       empty_world\<lparr>calls := tr @
         listener_calls ''weka/experiment/CSVResultListener'' 0 (length tr) (Some ''Results.CSV'')\<rparr>))"
  using setup_extension_case_insensitive [of "\<lambda>tr c. Returns JNull" "scenario ''OUT.ARFF''" "''OUT.ARFF''" empty_world]
    setup_extension_case_insensitive [of "\<lambda>tr c. Returns JNull" "scenario ''Results.CSV''" "''Results.CSV''" empty_world]
  by (simp add: never_throws_def scenario_def empty_world_def endswith_def lower_def lower_char_def)





text \<open>
  Claim C5. An experiment that holds a foreign handle is left as it is by
  \<^verbatim>\<open>setup()\<close>, which makes no foreign call then; and after a \<^verbatim>\<open>setup()\<close> that returned,
  the experiment holds a handle, so a second \<^verbatim>\<open>setup()\<close> changes neither the experiment
  (its handle included) nor the world.
\<close>

theorem setup_idempotent:
  "(jobject self \<noteq> None \<longrightarrow> SimpleExperiment_setup vm self w = (Inr (), self, w))
   \<and> (SimpleExperiment_setup vm self w = (Inr (), self1, w1) \<longrightarrow>
        jobject self1 \<noteq> None \<and> SimpleExperiment_setup vm self1 w1 = (Inr (), self1, w1))"
  by (auto simp: SimpleExperiment_setup_def split: prod.splits sum.splits if_splits)

theorem setup_idempotent_witness:
  "SimpleExperiment_setup (\<lambda>tr c. Returns JNull) ((scenario ''out.csv'')\<lparr>jobject := Some 0\<rparr>)
      empty_world = (Inr (), (scenario ''out.csv'')\<lparr>jobject := Some 0\<rparr>, empty_world)
   \<and> (\<exists>self1 w1.
        SimpleExperiment_setup (\<lambda>tr c. Returns JNull) (scenario ''out.csv'') empty_world
          = (Inr (), self1, w1)
        \<and> jobject self1 = Some 0
        \<and> SimpleExperiment_setup (\<lambda>tr c. Returns JNull) self1 w1 = (Inr (), self1, w1))"
proof -
  have "\<exists>tr. SimpleExperiment_setup (\<lambda>tr c. Returns JNull) (scenario ''out.csv'') empty_world =
      (Inr (), (scenario ''out.csv'')\<lparr>jobject := Some (length (calls empty_world))\<rparr>,
       empty_world\<lparr>calls := calls empty_world @ tr @
         listener_calls ''weka/experiment/CSVResultListener'' (length (calls empty_world))
           (length (calls empty_world) + length tr) (Some ''out.csv'')\<rparr>)"
    by (rule setup_listener)
      (simp_all add: never_throws_def scenario_def endswith_def lower_def lower_char_def)
  then
  obtain tr where first:
    "SimpleExperiment_setup (\<lambda>tr c. Returns JNull) (scenario ''out.csv'') empty_world =
      (Inr (), (scenario ''out.csv'')\<lparr>jobject := Some 0\<rparr>,
       empty_world\<lparr>calls := tr @
         listener_calls ''weka/experiment/CSVResultListener'' 0 (length tr) (Some ''out.csv'')\<rparr>)"
    by (auto simp: empty_world_def)
  have a: "SimpleExperiment_setup (\<lambda>tr c. Returns JNull)
      ((scenario ''out.csv'')\<lparr>jobject := Some 0\<rparr>) empty_world
      = (Inr (), (scenario ''out.csv'')\<lparr>jobject := Some 0\<rparr>, empty_world)"
    using setup_idempotent [of "(scenario ''out.csv'')\<lparr>jobject := Some 0\<rparr>"
        "\<lambda>tr c. Returns JNull" empty_world]
    by simp
  have b: "jobject ((scenario ''out.csv'')\<lparr>jobject := Some 0\<rparr>) = Some 0" by simp
  show ?thesis
    using a b first setup_idempotent [of "scenario ''out.csv''" "\<lambda>tr c. Returns JNull"
        empty_world "(scenario ''out.csv'')\<lparr>jobject := Some 0\<rparr>"
        "empty_world\<lparr>calls := tr @
         listener_calls ''weka/experiment/CSVResultListener'' 0 (length tr) (Some ''out.csv'')\<rparr>"]
    by blast
qed

lemma run_unfold:
  "run vm self w =
    (let j = of_ref (jobject self);
         c1 = Call j ''initialize'' ''()V'' [];
         c2 = Call j ''runExperiment'' ''()V'' [];
         c3 = Call j ''postProcess'' ''()V'' [] in
     case vm (calls w) c1 of
       Throws m \<Rightarrow> (Inl (JavaException m),
          w\<lparr>calls := calls w @ [c1], logged := logged w @ [''Initializing...'']\<rparr>)
     | Returns _ \<Rightarrow>
        (case vm (calls w @ [c1]) c2 of
           Throws m \<Rightarrow> (Inl (JavaException m),
             w\<lparr>calls := calls w @ [c1, c2],
               logged := logged w @ [''Initializing...'', ''Running...'']\<rparr>)
         | Returns _ \<Rightarrow>
            (case vm (calls w @ [c1, c2]) c3 of
               Throws m \<Rightarrow> (Inl (JavaException m),
                 w\<lparr>calls := calls w @ [c1, c2, c3],
                   logged := logged w @ [''Initializing...'', ''Running...'', ''Finished...'']\<rparr>)
             | Returns _ \<Rightarrow> (Inr (),
                 w\<lparr>calls := calls w @ [c1, c2, c3],
                   logged := logged w @ [''Initializing...'', ''Running...'', ''Finished...'']\<rparr>))))"
  by (simp add: run_def bind_jb_def logger_info_def call_def foreign_def return_jb_def Let_def
      split: jresult.splits)

text \<open>
  Claim C6. \<^verbatim>\<open>run()\<close> calls \<open>initialize\<close>, \<open>runExperiment\<close> and \<open>postProcess\<close> on the
  foreign experiment, in this order and nothing else. When one of them throws, the calls
  made are those up to the one that threw, and its exception is the outcome of
  \<^verbatim>\<open>run()\<close>; when none throws, \<^verbatim>\<open>run()\<close> returns after exactly the three calls.
\<close>

theorem run_three_phases:
  fixes vm :: jvm and self :: simple_experiment and w :: world
  defines "c1 \<equiv> Call (of_ref (jobject self)) ''initialize'' ''()V'' []"
    and "c2 \<equiv> Call (of_ref (jobject self)) ''runExperiment'' ''()V'' []"
    and "c3 \<equiv> Call (of_ref (jobject self)) ''postProcess'' ''()V'' []"
  shows
    "(vm (calls w) c1 = Throws m \<longrightarrow>
        fst (run vm self w) = Inl (JavaException m) \<and>
        calls (snd (run vm self w)) = calls w @ [c1])
     \<and> (vm (calls w) c1 = Returns v1 \<and> vm (calls w @ [c1]) c2 = Throws m \<longrightarrow>
        fst (run vm self w) = Inl (JavaException m) \<and>
        calls (snd (run vm self w)) = calls w @ [c1, c2])
     \<and> (vm (calls w) c1 = Returns v1 \<and> vm (calls w @ [c1]) c2 = Returns v2 \<and>
        vm (calls w @ [c1, c2]) c3 = Throws m \<longrightarrow>
        fst (run vm self w) = Inl (JavaException m) \<and>
        calls (snd (run vm self w)) = calls w @ [c1, c2, c3])
     \<and> (vm (calls w) c1 = Returns v1 \<and> vm (calls w @ [c1]) c2 = Returns v2 \<and>
        vm (calls w @ [c1, c2]) c3 = Returns v3 \<longrightarrow>
        fst (run vm self w) = Inr () \<and>
        calls (snd (run vm self w)) = calls w @ [c1, c2, c3])"
  unfolding c1_def c2_def c3_def
  by (simp add: run_unfold Let_def)

theorem run_three_phases_witness:
  "(fst (run (throws_in ''initialize'') ((scenario ''out.csv'')\<lparr>jobject := Some 0\<rparr>) empty_world)
      = Inl (JavaException ''failed'')
    \<and> calls (snd (run (throws_in ''initialize'') ((scenario ''out.csv'')\<lparr>jobject := Some 0\<rparr>) empty_world))
      = [Call (JObject 0) ''initialize'' ''()V'' []])
   \<and> (fst (run (throws_in ''runExperiment'') ((scenario ''out.csv'')\<lparr>jobject := Some 0\<rparr>) empty_world)
      = Inl (JavaException ''failed'')
    \<and> calls (snd (run (throws_in ''runExperiment'') ((scenario ''out.csv'')\<lparr>jobject := Some 0\<rparr>) empty_world))
      = [Call (JObject 0) ''initialize'' ''()V'' [], Call (JObject 0) ''runExperiment'' ''()V'' []])
   \<and> (fst (run (throws_in ''postProcess'') ((scenario ''out.csv'')\<lparr>jobject := Some 0\<rparr>) empty_world)
      = Inl (JavaException ''failed'')
    \<and> calls (snd (run (throws_in ''postProcess'') ((scenario ''out.csv'')\<lparr>jobject := Some 0\<rparr>) empty_world))
      = [Call (JObject 0) ''initialize'' ''()V'' [], Call (JObject 0) ''runExperiment'' ''()V'' [],
         Call (JObject 0) ''postProcess'' ''()V'' []])
   \<and> (fst (run (throws_in ''none'') ((scenario ''out.csv'')\<lparr>jobject := Some 0\<rparr>) empty_world)
      = Inr ()
    \<and> calls (snd (run (throws_in ''none'') ((scenario ''out.csv'')\<lparr>jobject := Some 0\<rparr>) empty_world))
      = [Call (JObject 0) ''initialize'' ''()V'' [], Call (JObject 0) ''runExperiment'' ''()V'' [],
         Call (JObject 0) ''postProcess'' ''()V'' []])"
  using run_three_phases [where vm = "throws_in ''initialize''"
      and self = "(scenario ''out.csv'')\<lparr>jobject := Some 0\<rparr>" and w = empty_world
      and m = "''failed''"]
    run_three_phases [where vm = "throws_in ''runExperiment''"
      and self = "(scenario ''out.csv'')\<lparr>jobject := Some 0\<rparr>" and w = empty_world
      and m = "''failed''" and ?v1.0 = JNull]
    run_three_phases [where vm = "throws_in ''postProcess''"
      and self = "(scenario ''out.csv'')\<lparr>jobject := Some 0\<rparr>" and w = empty_world
      and m = "''failed''" and ?v1.0 = JNull and ?v2.0 = JNull]
    run_three_phases [where vm = "throws_in ''none''"
      and self = "(scenario ''out.csv'')\<lparr>jobject := Some 0\<rparr>" and w = empty_world
      and ?v1.0 = JNull and ?v2.0 = JNull and ?v3.0 = JNull]
  by (simp add: throws_in_def of_ref_def empty_world_def)

lemma get_instances_unfold:
  "get_instances vm self w =
     (case vm (calls w) (Call (of_ref (jobject self)) ''getInstances'' ''()Lweka/core/Instances;'' []) of
        Throws m \<Rightarrow> (Inl (JavaException m),
           w\<lparr>calls := calls w @ [Call (of_ref (jobject self)) ''getInstances'' ''()Lweka/core/Instances;'' []]\<rparr>)
      | Returns _ \<Rightarrow> (Inr (instances w),
           w\<lparr>calls := calls w @ [Call (of_ref (jobject self)) ''getInstances'' ''()Lweka/core/Instances;'' []]\<rparr>))"
  by (simp add: get_instances_def bind_jb_def call_def foreign_def split: jresult.splits)

text \<open>
  Claim C10. When \<^verbatim>\<open>get_instances()\<close> returns \<^verbatim>\<open>None\<close>, \<^verbatim>\<open>init_columns\<close> returns without
  an error and leaves the tester as it is, so \<open>columns_determined\<close> stays \<open>False\<close>; it
  makes no foreign call but the one that asked for the instances. \<^verbatim>\<open>header\<close> then goes
  on to the foreign \<open>header\<close> call, and its outcome is that call's.
\<close>

theorem no_instances_no_error:
  assumes "get_instances vm self w = (Inr None, w1)"
  shows "fst (init_columns vm self w) = Inr ()
     \<and> fst (snd (init_columns vm self w)) = self
     \<and> columns_determined (fst (snd (init_columns vm self w))) = columns_determined self
     \<and> calls (snd (snd (init_columns vm self w))) =
         (if columns_determined self then calls w
          else calls w @ [Call (of_ref (jobject self)) ''getInstances'' ''()Lweka/core/Instances;'' []])
     \<and> header vm self comparison_column w =
         (case call vm (of_ref (jobject self)) ''header'' ''(I)Ljava/lang/String;''
                 [JInt comparison_column] (snd (snd (init_columns vm self w))) of
            (r, w2) \<Rightarrow> (r, self, w2))"
  using assms
  by (auto simp: init_columns_def header_def get_instances_unfold split: jresult.splits prod.splits)

theorem no_instances_no_error_witness:
  "fst (init_columns (\<lambda>tr c. Returns (JString ''report'')) (Tester_init 0) empty_world) = Inr ()
   \<and> \<not> columns_determined
        (fst (snd (init_columns (\<lambda>tr c. Returns (JString ''report'')) (Tester_init 0) empty_world)))
   \<and> calls (snd (snd (init_columns (\<lambda>tr c. Returns (JString ''report'')) (Tester_init 0) empty_world)))
        = [Call (JObject 0) ''getInstances'' ''()Lweka/core/Instances;'' []]
   \<and> fst (header (\<lambda>tr c. Returns (JString ''report'')) (Tester_init 0) 0 empty_world)
        = Inr (JString ''report'')
   \<and> calls (snd (snd (header (\<lambda>tr c. Returns (JString ''report'')) (Tester_init 0) 0 empty_world)))
        = [Call (JObject 0) ''getInstances'' ''()Lweka/core/Instances;'' [],
           Call (JObject 0) ''header'' ''(I)Ljava/lang/String;'' [JInt 0]]"
proof -
  have g: "get_instances (\<lambda>tr c. Returns (JString ''report'')) (Tester_init 0) empty_world =
      (Inr None, empty_world\<lparr>calls := [Call (JObject 0) ''getInstances'' ''()Lweka/core/Instances;'' []]\<rparr>)"
    by (simp add: get_instances_unfold Tester_init_def of_ref_def empty_world_def)
  have w: "snd (snd (init_columns (\<lambda>tr c. Returns (JString ''report'')) (Tester_init 0) empty_world))
      = empty_world\<lparr>calls := [Call (JObject 0) ''getInstances'' ''()Lweka/core/Instances;'' []],
          stdout := [''No instances set, cannot determine columns!'']\<rparr>"
    using g by (simp add: init_columns_def Tester_init_def empty_world_def)
  show ?thesis
    using no_instances_no_error [OF g, of 0] w
    by (simp add: Tester_init_def of_ref_def empty_world_def call_def foreign_def)
qed

lemma get_attribute_by_name_present:
  "name \<in> set data \<Longrightarrow> get_attribute_by_name data name = Some (position data name)"
  by (induction data) (auto simp: position_def)

lemma get_attribute_by_name_absent:
  "name \<notin> set data \<Longrightarrow> get_attribute_by_name data name = None"
  by (induction data) auto

lemma str_nat_nonempty: "str_nat n \<noteq> []"
  by (subst str_nat.simps) simp

lemma columns_loop_missing:
  "find (\<lambda>n. n \<notin> set data) names = Some name \<Longrightarrow>
   columns_loop not_found data names cols = raise_jb (Exception (not_found @ name))"
  by (induction names arbitrary: cols)
    (auto simp: get_attribute_by_name_present get_attribute_by_name_absent split: if_splits)

lemma columns_loop_fold:
  "set names \<subseteq> set data \<Longrightarrow>
   columns_loop not_found data names cols =
     return_jb (foldl (\<lambda>c x. (if length c > 0 then c @ '','' else c) @ x) cols
       (map (\<lambda>name. str_nat (position data name + 1)) names))"
  by (induction names arbitrary: cols)
    (simp_all add: get_attribute_by_name_present get_index_def)

lemma join_Cons: "join sep (x # xs) = x @ concat (map (\<lambda>y. sep @ y) xs)"
  by (induction xs arbitrary: x) simp_all

lemma fold_nonempty:
  "cols \<noteq> [] \<Longrightarrow>
   foldl (\<lambda>c x. (if length c > 0 then c @ '','' else c) @ x) cols xs =
     cols @ concat (map (\<lambda>y. '','' @ y) xs)"
  by (induction xs arbitrary: cols) simp_all

lemma fold_join:
  "\<forall>x \<in> set xs. x \<noteq> [] \<Longrightarrow>
   foldl (\<lambda>c x. (if length c > 0 then c @ '','' else c) @ x) [] xs = join '','' xs"
proof (cases xs)
  case Nil
  then show ?thesis by simp
next
  case (Cons x rest)
  assume "\<forall>x \<in> set xs. x \<noteq> []"
  with Cons have "x \<noteq> []" by simp
  then show ?thesis
    using Cons fold_nonempty [of x rest] by (simp add: join_Cons)
qed

lemma columns_loop_present:
  "set names \<subseteq> set data \<Longrightarrow>
   columns_loop not_found data names [] = return_jb (one_based_range data names)"
proof -
  assume "set names \<subseteq> set data"
  then have "columns_loop not_found data names [] =
     return_jb (foldl (\<lambda>c x. (if length c > 0 then c @ '','' else c) @ x) []
       (map (\<lambda>name. str_nat (position data name + 1)) names))"
    by (rule columns_loop_fold)
  also have "foldl (\<lambda>c x. (if length c > 0 then c @ '','' else c) @ x) []
       (map (\<lambda>name. str_nat (position data name + 1)) names) = one_based_range data names"
    unfolding one_based_range_def
    by (rule fold_join) (simp add: str_nat_nonempty)
  finally show ?thesis .
qed

lemma bind_return [simp]: "bind_jb (return_jb x) f = f x"
  by (rule ext) (simp add: bind_jb_def return_jb_def)

lemma bind_raise [simp]: "bind_jb (raise_jb e) f = raise_jb e"
  by (rule ext) (simp add: bind_jb_def raise_jb_def)

lemma call_never_throws:
  "never_throws vm \<Longrightarrow>
   call vm obj meth sig args w =
     (Inr (case vm (calls w) (Call obj meth sig args) of Returns v \<Rightarrow> v | Throws m \<Rightarrow> JNull),
      w\<lparr>calls := calls w @ [Call obj meth sig args]\<rparr>)"
  by (simp add: call_def foreign_def split: jresult.splits)

lemma Range_init_never_throws:
  "never_throws vm \<Longrightarrow>
   Range_init vm ranges w =
     (Inr (length (calls w)),
      w\<lparr>calls := calls w @ [MakeInstance ''weka/core/Range'' ''(Ljava/lang/String;)V'' [JString ranges]]\<rparr>)"
  by (simp add: Range_init_def make_instance_def foreign_new_def foreign_def split: jresult.splits)

lemma bind_call_never_throws:
  "never_throws vm \<Longrightarrow>
   bind_jb (call vm obj meth sig args) f w =
     f (case vm (calls w) (Call obj meth sig args) of Returns v \<Rightarrow> v | Throws m \<Rightarrow> JNull)
       (w\<lparr>calls := calls w @ [Call obj meth sig args]\<rparr>)"
  by (simp add: bind_jb_def call_never_throws)

lemma bind_Range_init_never_throws:
  "never_throws vm \<Longrightarrow>
   bind_jb (Range_init vm ranges) f w =
     f (length (calls w))
       (w\<lparr>calls := calls w @ [MakeInstance ''weka/core/Range'' ''(Ljava/lang/String;)V'' [JString ranges]]\<rparr>)"
  by (simp add: bind_jb_def Range_init_never_throws)

lemma get_instances_never_throws:
  "never_throws vm \<Longrightarrow>
   get_instances vm self w =
     (Inr (instances w),
      w\<lparr>calls := calls w @ [Call (of_ref (jobject self)) ''getInstances'' ''()Lweka/core/Instances;'' []]\<rparr>)"
  by (simp add: get_instances_unfold split: jresult.splits)

text \<open>
  Claim C8, amended. When the dataset and result columns and the run column are among
  the attributes of the attached dataset, and no foreign call throws, column resolution
  passes the dataset columns and the result columns as ranges of 1-based attribute
  indices, separated by commas, the run column as its 0-based attribute index, and the
  fold column, when one is set, as its 0-based attribute index, or -1 when the dataset
  has no such attribute. It then sets \<open>columns_determined\<close>.
\<close>

theorem columns_resolved:
  assumes "never_throws vm" and "instances w = Some data" and "\<not> columns_determined self"
    and "dataset_columns self = Some dcs" and "run_column self = Some rc"
    and "result_columns self = Some rcs"
    and "set dcs \<subseteq> set data" and "rc \<in> set data" and "set rcs \<subseteq> set data"
  shows "init_columns vm self w =
     (Inr (), self\<lparr>columns_determined := True\<rparr>,
      w\<lparr>calls := calls w @
        [Call (of_ref (jobject self)) ''getInstances'' ''()Lweka/core/Instances;'' [],
         MakeInstance ''weka/core/Range'' ''(Ljava/lang/String;)V''
           [JString (one_based_range data dcs)],
         Call (of_ref (jobject self)) ''setDatasetKeyColumns'' ''(Lweka/core/Range;)V''
           [JObject (length (calls w) + 1)],
         Call (of_ref (jobject self)) ''setRunColumn'' ''(I)V'' [JInt (int (position data rc))]]
        @ (case fold_column self of
             None \<Rightarrow> []
           | Some fc \<Rightarrow>
               [Call (of_ref (jobject self)) ''setFoldColumn'' ''(I)V''
                  [JInt (if fc \<in> set data then int (position data fc) else - 1)]])
        @ [MakeInstance ''weka/core/Range'' ''(Ljava/lang/String;)V''
             [JString (one_based_range data rcs)],
           Call (of_ref (jobject self)) ''setResultsetKeyColumns'' ''(Lweka/core/Range;)V''
             [JObject (length (calls w) + (case fold_column self of None \<Rightarrow> 4 | Some fc \<Rightarrow> 5))]]\<rparr>)"
proof (cases "fold_column self")
  case None
  with assms show ?thesis
    by (simp add: init_columns_def get_instances_never_throws resolve_columns_def
        columns_loop_present bind_call_never_throws bind_Range_init_never_throws
        call_never_throws get_attribute_by_name_present get_index_def)
next
  case (Some fc)
  with assms show ?thesis
    by (cases "fc \<in> set data")
      (simp_all add: init_columns_def get_instances_never_throws resolve_columns_def
        columns_loop_present bind_call_never_throws bind_Range_init_never_throws
        call_never_throws get_attribute_by_name_present get_attribute_by_name_absent
        get_index_def)
qed

lemma raise_apply: "raise_jb e w = (Inl e, w)"
  by (simp add: raise_jb_def)

lemma header_missing_dataset_column:
  assumes "never_throws vm" and "instances w = Some data" and "\<not> columns_determined self"
    and "dataset_columns self = Some dcs"
    and "find (\<lambda>n. n \<notin> set data) dcs = Some name"
  shows "header vm self cc w =
     (Inl (Exception (''Dataset column not found: '' @ name)), self,
      w\<lparr>calls := calls w @
        [Call (of_ref (jobject self)) ''getInstances'' ''()Lweka/core/Instances;'' []]\<rparr>)"
  using assms
  by (simp add: header_def init_columns_def get_instances_never_throws resolve_columns_def
      columns_loop_missing raise_apply)

lemma header_missing_run_column:
  assumes "never_throws vm" and "instances w = Some data" and "\<not> columns_determined self"
    and "dataset_columns self = Some dcs" and "run_column self = Some rc"
    and "set dcs \<subseteq> set data" and "rc \<notin> set data"
  shows "header vm self cc w =
     (Inl (Exception (''Run column not found: '' @ rc)), self,
      w\<lparr>calls := calls w @
        [Call (of_ref (jobject self)) ''getInstances'' ''()Lweka/core/Instances;'' [],
         MakeInstance ''weka/core/Range'' ''(Ljava/lang/String;)V''
           [JString (one_based_range data dcs)],
         Call (of_ref (jobject self)) ''setDatasetKeyColumns'' ''(Lweka/core/Range;)V''
           [JObject (length (calls w) + 1)]]\<rparr>)"
  using assms
  by (simp add: header_def init_columns_def get_instances_never_throws resolve_columns_def
      columns_loop_present bind_call_never_throws bind_Range_init_never_throws
      get_attribute_by_name_absent raise_apply)

lemma header_missing_result_column:
  assumes "never_throws vm" and "instances w = Some data" and "\<not> columns_determined self"
    and "dataset_columns self = Some dcs" and "run_column self = Some rc"
    and "result_columns self = Some rcs"
    and "set dcs \<subseteq> set data" and "rc \<in> set data"
    and "find (\<lambda>n. n \<notin> set data) rcs = Some name"
  shows "header vm self cc w =
     (Inl (Exception (''Result column not found: '' @ name)), self,
      w\<lparr>calls := calls w @
        [Call (of_ref (jobject self)) ''getInstances'' ''()Lweka/core/Instances;'' [],
         MakeInstance ''weka/core/Range'' ''(Ljava/lang/String;)V''
           [JString (one_based_range data dcs)],
         Call (of_ref (jobject self)) ''setDatasetKeyColumns'' ''(Lweka/core/Range;)V''
           [JObject (length (calls w) + 1)],
         Call (of_ref (jobject self)) ''setRunColumn'' ''(I)V'' [JInt (int (position data rc))]]
        @ (case fold_column self of
             None \<Rightarrow> []
           | Some fc \<Rightarrow>
               [Call (of_ref (jobject self)) ''setFoldColumn'' ''(I)V''
                  [JInt (if fc \<in> set data then int (position data fc) else - 1)]])\<rparr>)"
proof (cases "fold_column self")
  case None
  with assms show ?thesis
    by (simp add: header_def init_columns_def get_instances_never_throws resolve_columns_def
        columns_loop_present columns_loop_missing bind_call_never_throws
        bind_Range_init_never_throws get_attribute_by_name_present get_index_def raise_apply)
next
  case (Some fc)
  with assms show ?thesis
    by (cases "fc \<in> set data")
      (simp_all add: header_def init_columns_def get_instances_never_throws resolve_columns_def
        columns_loop_present columns_loop_missing bind_call_never_throws
        bind_Range_init_never_throws get_attribute_by_name_present
        get_attribute_by_name_absent get_index_def raise_apply)
qed

lemma find_absent: "\<not> set names \<subseteq> set data \<Longrightarrow> \<exists>name. find (\<lambda>n. n \<notin> set data) names = Some name"
  by (cases "find (\<lambda>n. n \<notin> set data) names") (auto simp: find_None_iff)

lemma find_absent_member:
  "find (\<lambda>n. n \<notin> set data) names = Some name \<Longrightarrow> name \<in> set names \<and> name \<notin> set data"
  by (auto simp: find_Some_iff)

text \<open>
  Claim C7, amended. Let a dataset be attached to a tester whose columns are not yet
  resolved and whose dataset, run and result column names are set, on a Java side where
  no call throws. When some dataset column, the run column or some result column is
  absent from the attributes of the dataset, \<^verbatim>\<open>header\<close> fails with a lookup error that
  names an absent column: the first absent dataset column, else the run column, else the
  first absent result column. No foreign statistics call is made and
  \<open>columns_determined\<close> stays \<open>False\<close>.
\<close>

theorem missing_column_lookup_error:
  assumes "never_throws vm" and "instances w = Some data" and "\<not> columns_determined self"
    and "dataset_columns self = Some dcs" and "run_column self = Some rc"
    and "result_columns self = Some rcs"
  shows "(find (\<lambda>n. n \<notin> set data) dcs = Some name \<longrightarrow>
            fst (header vm self cc w) = Inl (Exception (''Dataset column not found: '' @ name)))
     \<and> (set dcs \<subseteq> set data \<and> rc \<notin> set data \<longrightarrow>
            fst (header vm self cc w) = Inl (Exception (''Run column not found: '' @ rc)))
     \<and> (set dcs \<subseteq> set data \<and> rc \<in> set data \<and> find (\<lambda>n. n \<notin> set data) rcs = Some name \<longrightarrow>
            fst (header vm self cc w) = Inl (Exception (''Result column not found: '' @ name)))
     \<and> (\<not> set (dcs @ [rc] @ rcs) \<subseteq> set data \<longrightarrow>
            (\<exists>absent what. absent \<in> set (dcs @ [rc] @ rcs) \<and> absent \<notin> set data \<and>
               fst (header vm self cc w) = Inl (Exception (what @ '' column not found: '' @ absent)))
            \<and> filter is_statistics_call (calls (snd (snd (header vm self cc w))))
                = filter is_statistics_call (calls w)
            \<and> \<not> columns_determined (fst (snd (header vm self cc w))))"
proof (intro conjI impI)
  assume "find (\<lambda>n. n \<notin> set data) dcs = Some name"
  then show "fst (header vm self cc w) = Inl (Exception (''Dataset column not found: '' @ name))"
    using header_missing_dataset_column [OF assms(1-4)] by simp
next
  assume "set dcs \<subseteq> set data \<and> rc \<notin> set data"
  then show "fst (header vm self cc w) = Inl (Exception (''Run column not found: '' @ rc))"
    using header_missing_run_column [OF assms(1-5)] by simp
next
  assume "set dcs \<subseteq> set data \<and> rc \<in> set data \<and> find (\<lambda>n. n \<notin> set data) rcs = Some name"
  then show "fst (header vm self cc w) = Inl (Exception (''Result column not found: '' @ name))"
    using header_missing_result_column [OF assms(1-6)] by simp
next
  assume absent: "\<not> set (dcs @ [rc] @ rcs) \<subseteq> set data"
  consider (d) n where "find (\<lambda>n. n \<notin> set data) dcs = Some n"
    | (r) "set dcs \<subseteq> set data" and "rc \<notin> set data"
    | (s) n where "set dcs \<subseteq> set data" and "rc \<in> set data"
        and "find (\<lambda>n. n \<notin> set data) rcs = Some n"
    using absent find_absent [of dcs data] find_absent [of rcs data] by auto
  then have "(\<exists>absent what. absent \<in> set (dcs @ [rc] @ rcs) \<and> absent \<notin> set data \<and>
               fst (header vm self cc w) = Inl (Exception (what @ '' column not found: '' @ absent)))
            \<and> filter is_statistics_call (calls (snd (snd (header vm self cc w))))
                = filter is_statistics_call (calls w)
            \<and> \<not> columns_determined (fst (snd (header vm self cc w)))"
  proof cases
    case d
    have "fst (header vm self cc w) = Inl (Exception (''Dataset'' @ '' column not found: '' @ n))"
      using header_missing_dataset_column [OF assms(1-4) d, of cc] by simp
    moreover have "n \<in> set (dcs @ [rc] @ rcs) \<and> n \<notin> set data"
      using find_absent_member [OF d] by simp
    ultimately show ?thesis
      using header_missing_dataset_column [OF assms(1-4) d, of cc] assms(3)
      by (auto simp: is_statistics_call_def simp del: append.simps)
  next
    case r
    have "fst (header vm self cc w) = Inl (Exception (''Run'' @ '' column not found: '' @ rc))"
      using header_missing_run_column [OF assms(1-5) r, of cc] by simp
    moreover have "rc \<in> set (dcs @ [rc] @ rcs) \<and> rc \<notin> set data"
      using r by simp
    ultimately show ?thesis
      using header_missing_run_column [OF assms(1-5) r, of cc] assms(3)
      by (auto simp: is_statistics_call_def simp del: append.simps)
  next
    case s
    have "fst (header vm self cc w) = Inl (Exception (''Result'' @ '' column not found: '' @ n))"
      using header_missing_result_column [OF assms(1-6) s, of cc] by simp
    moreover have "n \<in> set (dcs @ [rc] @ rcs) \<and> n \<notin> set data"
      using find_absent_member [OF s(3)] by simp
    ultimately show ?thesis
      using header_missing_result_column [OF assms(1-6) s, of cc] assms(3)
      by (auto simp: is_statistics_call_def simp del: append.simps split: option.splits)
  qed
  then show "\<exists>absent what. absent \<in> set (dcs @ [rc] @ rcs) \<and> absent \<notin> set data \<and>
               fst (header vm self cc w) = Inl (Exception (what @ '' column not found: '' @ absent))"
    and "filter is_statistics_call (calls (snd (snd (header vm self cc w))))
                = filter is_statistics_call (calls w)"
    and "\<not> columns_determined (fst (snd (header vm self cc w)))"
    by blast+
qed

lemmas eval_defs =
  init_columns_def get_instances_def bind_jb_def call_def foreign_def resolve_columns_def
  get_index_def Range_init_def make_instance_def foreign_new_def str_nat.simps digit_char_def
  return_jb_def raise_jb_def Tester_init_def of_ref_def reporting_def result_file_def
  attached_def resolution_calls_def header_def

lemma init_columns_result_file:
  "init_columns reporting (Tester_init 0) (attached result_file) =
     (Inr (), (Tester_init 0)\<lparr>columns_determined := True\<rparr>,
      (attached result_file)\<lparr>calls := resolution_calls\<rparr>)"
  by (simp add: eval_defs)

lemma header_result_file:
  "header reporting (Tester_init 0) 0 (attached result_file) =
     (Inr (JString ''report''), (Tester_init 0)\<lparr>columns_determined := True\<rparr>,
      (attached result_file)\<lparr>calls := resolution_calls @
        [Call (JObject 0) ''header'' ''(I)Ljava/lang/String;'' [JInt 0]]\<rparr>)"
  by (simp add: eval_defs)

text \<open>
  Claim C1. The four setters of the column names assign their field and leave
  \<open>columns_determined\<close> as it is. On the result file: a first \<^verbatim>\<open>header(0)\<close> resolves the
  columns; after \<^verbatim>\<open>set_run_column("Percent_correct")\<close> the flag is still set, and the
  next \<^verbatim>\<open>header(0)\<close> makes the foreign \<open>header\<close> call alone: the run column is not
  resolved again.
\<close>

theorem setters_keep_columns_determined:
  "columns_determined (set_dataset_columns self col_names) = columns_determined self
   \<and> columns_determined (set_run_column self col_name) = columns_determined self
   \<and> columns_determined (set_fold_column self col_name) = columns_determined self
   \<and> columns_determined (set_result_columns self col_names) = columns_determined self
   \<and> header reporting (Tester_init 0) 0 (attached result_file) =
       (Inr (JString ''report''), (Tester_init 0)\<lparr>columns_determined := True\<rparr>,
        (attached result_file)\<lparr>calls := resolution_calls @
          [Call (JObject 0) ''header'' ''(I)Ljava/lang/String;'' [JInt 0]]\<rparr>)
   \<and> header reporting
         (set_run_column ((Tester_init 0)\<lparr>columns_determined := True\<rparr>) (Some ''Percent_correct''))
         0
         ((attached result_file)\<lparr>calls := resolution_calls @
            [Call (JObject 0) ''header'' ''(I)Ljava/lang/String;'' [JInt 0]]\<rparr>) =
       (Inr (JString ''report''),
        set_run_column ((Tester_init 0)\<lparr>columns_determined := True\<rparr>) (Some ''Percent_correct''),
        (attached result_file)\<lparr>calls := resolution_calls @
          [Call (JObject 0) ''header'' ''(I)Ljava/lang/String;'' [JInt 0],
           Call (JObject 0) ''header'' ''(I)Ljava/lang/String;'' [JInt 0]]\<rparr>)"
  by (simp add: set_dataset_columns_def set_run_column_def set_fold_column_def
      set_result_columns_def header_result_file)
    (simp add: header_def init_columns_def call_def foreign_def reporting_def Tester_init_def
      of_ref_def)

lemma multi_resultset_calls:
  "fst (snd (multi_resultset_full vm self base_resultset comparison_column w)) = self
   \<and> calls (snd (snd (multi_resultset_full vm self base_resultset comparison_column w))) =
       calls w @ [Call (of_ref (jobject self)) ''multiResultsetFull'' ''(II)Ljava/lang/String;''
                    [JInt base_resultset, JInt comparison_column]]
   \<and> fst (snd (multi_resultset_ranking vm self comparison_column w)) = self
   \<and> calls (snd (snd (multi_resultset_ranking vm self comparison_column w))) =
       calls w @ [Call (of_ref (jobject self)) ''multiResultsetRanking'' ''(I)Ljava/lang/String;''
                    [JInt comparison_column]]
   \<and> fst (snd (multi_resultset_summary vm self comparison_column w)) = self
   \<and> calls (snd (snd (multi_resultset_summary vm self comparison_column w))) =
       calls w @ [Call (of_ref (jobject self)) ''multiResultsetSummary'' ''(I)Ljava/lang/String;''
                    [JInt comparison_column]]"
  by (simp add: multi_resultset_full_def multi_resultset_ranking_def
      multi_resultset_summary_def call_def foreign_def split: jresult.splits prod.splits)

lemma multi_resultset_full_result_file:
  "multi_resultset_full reporting (Tester_init 0) 0 0 (attached result_file) =
       (Inr (JString ''report''), Tester_init 0,
        (attached result_file)\<lparr>calls :=
          [Call (JObject 0) ''multiResultsetFull'' ''(II)Ljava/lang/String;'' [JInt 0, JInt 0]]\<rparr>)"
  by (simp add: multi_resultset_full_def call_def foreign_def reporting_def Tester_init_def
      of_ref_def attached_def)

text \<open>
  Claim C2. \<^verbatim>\<open>multi_resultset_full\<close>, \<^verbatim>\<open>multi_resultset_ranking\<close> and
  \<^verbatim>\<open>multi_resultset_summary\<close> leave the tester as it is and make one foreign call, the
  statistics call: they do not resolve the columns. On the result file
  \<^verbatim>\<open>multi_resultset_full(0, 0)\<close> of a new tester makes the call \<open>multiResultsetFull\<close>
  alone, where \<^verbatim>\<open>header(0)\<close> first makes the calls that resolve the columns.
\<close>

theorem multi_resultset_queries_skip_init_columns:
  "fst (snd (multi_resultset_full vm self base_resultset comparison_column w)) = self
   \<and> calls (snd (snd (multi_resultset_full vm self base_resultset comparison_column w))) =
       calls w @ [Call (of_ref (jobject self)) ''multiResultsetFull'' ''(II)Ljava/lang/String;''
                    [JInt base_resultset, JInt comparison_column]]
   \<and> fst (snd (multi_resultset_ranking vm self comparison_column w)) = self
   \<and> calls (snd (snd (multi_resultset_ranking vm self comparison_column w))) =
       calls w @ [Call (of_ref (jobject self)) ''multiResultsetRanking'' ''(I)Ljava/lang/String;''
                    [JInt comparison_column]]
   \<and> fst (snd (multi_resultset_summary vm self comparison_column w)) = self
   \<and> calls (snd (snd (multi_resultset_summary vm self comparison_column w))) =
       calls w @ [Call (of_ref (jobject self)) ''multiResultsetSummary'' ''(I)Ljava/lang/String;''
                    [JInt comparison_column]]
   \<and> multi_resultset_full reporting (Tester_init 0) 0 0 (attached result_file) =
       (Inr (JString ''report''), Tester_init 0,
        (attached result_file)\<lparr>calls :=
          [Call (JObject 0) ''multiResultsetFull'' ''(II)Ljava/lang/String;'' [JInt 0, JInt 0]]\<rparr>)
   \<and> calls (snd (snd (header reporting (Tester_init 0) 0 (attached result_file)))) =
       resolution_calls @ [Call (JObject 0) ''header'' ''(I)Ljava/lang/String;'' [JInt 0]]"
  using multi_resultset_calls [of vm self base_resultset comparison_column w]
  by (simp add: multi_resultset_full_result_file header_result_file)

text \<open>
  Claim C7, as stated, fails for the fold column: on a dataset without the attribute
  \<open>Key_Fold\<close>, \<^verbatim>\<open>header(0)\<close> of a new tester, whose fold column is \<open>Key_Fold\<close>, passes
  the fold index -1, makes the foreign \<open>header\<close> call and returns its report.
\<close>

theorem absent_fold_column_is_no_error:
  "fold_column (Tester_init 0) = Some ''Key_Fold''
   \<and> ''Key_Fold'' \<notin> set [''Key_Dataset'', ''Key_Run'', ''Key_Scheme'', ''Key_Scheme_options'',
         ''Key_Scheme_version_ID'', ''Percent_correct'']
   \<and> header reporting (Tester_init 0) 0
        (attached [''Key_Dataset'', ''Key_Run'', ''Key_Scheme'', ''Key_Scheme_options'',
           ''Key_Scheme_version_ID'', ''Percent_correct'']) =
       (Inr (JString ''report''), (Tester_init 0)\<lparr>columns_determined := True\<rparr>,
        (attached [''Key_Dataset'', ''Key_Run'', ''Key_Scheme'', ''Key_Scheme_options'',
           ''Key_Scheme_version_ID'', ''Percent_correct''])\<lparr>calls :=
          [Call (JObject 0) ''getInstances'' ''()Lweka/core/Instances;'' [],
           MakeInstance ''weka/core/Range'' ''(Ljava/lang/String;)V'' [JString ''1''],
           Call (JObject 0) ''setDatasetKeyColumns'' ''(Lweka/core/Range;)V'' [JObject 1],
           Call (JObject 0) ''setRunColumn'' ''(I)V'' [JInt 1],
           Call (JObject 0) ''setFoldColumn'' ''(I)V'' [JInt (- 1)],
           MakeInstance ''weka/core/Range'' ''(Ljava/lang/String;)V'' [JString ''3,4,5''],
           Call (JObject 0) ''setResultsetKeyColumns'' ''(Lweka/core/Range;)V'' [JObject 5],
           Call (JObject 0) ''header'' ''(I)Ljava/lang/String;'' [JInt 0]]\<rparr>)"
  by (simp add: eval_defs)

theorem missing_column_lookup_error_witness:
  "fst (header reporting (set_dataset_columns (Tester_init 0) [''Dataset'']) 0 (attached result_file))
     = Inl (Exception ''Dataset column not found: Dataset'')
   \<and> fst (header reporting (set_run_column (Tester_init 0) (Some ''Run'')) 0 (attached result_file))
     = Inl (Exception ''Run column not found: Run'')
   \<and> fst (header reporting (set_result_columns (Tester_init 0) [''Key_Scheme'', ''Scheme'']) 0
          (attached result_file))
     = Inl (Exception ''Result column not found: Scheme'')
   \<and> filter is_statistics_call
        (calls (snd (snd (header reporting (set_run_column (Tester_init 0) (Some ''Run'')) 0
           (attached result_file))))) = []
   \<and> \<not> columns_determined
        (fst (snd (header reporting (set_run_column (Tester_init 0) (Some ''Run'')) 0
           (attached result_file))))"
  using missing_column_lookup_error [of reporting "attached result_file" result_file
      "set_dataset_columns (Tester_init 0) [''Dataset'']" "[''Dataset'']" "''Key_Run''"
      "[''Key_Scheme'', ''Key_Scheme_options'', ''Key_Scheme_version_ID'']" "''Dataset''" 0]
    missing_column_lookup_error [of reporting "attached result_file" result_file
      "set_run_column (Tester_init 0) (Some ''Run'')" "[''Key_Dataset'']" "''Run''"
      "[''Key_Scheme'', ''Key_Scheme_options'', ''Key_Scheme_version_ID'']" "''Run''" 0]
    missing_column_lookup_error [of reporting "attached result_file" result_file
      "set_result_columns (Tester_init 0) [''Key_Scheme'', ''Scheme'']" "[''Key_Dataset'']"
      "''Key_Run''" "[''Key_Scheme'', ''Scheme'']" "''Scheme''" 0]
  by (simp add: never_throws_def reporting_def attached_def result_file_def Tester_init_def
      set_dataset_columns_def set_run_column_def set_result_columns_def)

text \<open>
  Claim C8, as stated, fails for the run column and the fold column: on the result file
  \<open>Key_Run\<close> is the second attribute and \<open>Key_Fold\<close> the third, and the indices passed
  to \<open>setRunColumn\<close> and \<open>setFoldColumn\<close> are 1 and 2.
\<close>

theorem run_column_is_zero_based:
  "calls (snd (snd (init_columns reporting (Tester_init 0) (attached result_file)))) =
     [Call (JObject 0) ''getInstances'' ''()Lweka/core/Instances;'' [],
      MakeInstance ''weka/core/Range'' ''(Ljava/lang/String;)V'' [JString ''1''],
      Call (JObject 0) ''setDatasetKeyColumns'' ''(Lweka/core/Range;)V'' [JObject 1],
      Call (JObject 0) ''setRunColumn'' ''(I)V'' [JInt 1],
      Call (JObject 0) ''setFoldColumn'' ''(I)V'' [JInt 2],
      MakeInstance ''weka/core/Range'' ''(Ljava/lang/String;)V'' [JString ''4,5,6''],
      Call (JObject 0) ''setResultsetKeyColumns'' ''(Lweka/core/Range;)V'' [JObject 5]]
   \<and> int (position result_file ''Key_Run'') + 1 = 2
   \<and> Call (JObject 0) ''setRunColumn'' ''(I)V'' [JInt (int (position result_file ''Key_Run'') + 1)]
       \<notin> set (calls (snd (snd (init_columns reporting (Tester_init 0) (attached result_file)))))
   \<and> int (position result_file ''Key_Fold'') + 1 = 3
   \<and> Call (JObject 0) ''setFoldColumn'' ''(I)V'' [JInt (int (position result_file ''Key_Fold'') + 1)]
       \<notin> set (calls (snd (snd (init_columns reporting (Tester_init 0) (attached result_file)))))"
  by (simp add: init_columns_result_file resolution_calls_def)
    (simp add: position_def result_file_def)

theorem columns_resolved_witness:
  "init_columns reporting (Tester_init 0) (attached result_file) =
     (Inr (), (Tester_init 0)\<lparr>columns_determined := True\<rparr>,
      (attached result_file)\<lparr>calls :=
        [Call (JObject 0) ''getInstances'' ''()Lweka/core/Instances;'' [],
         MakeInstance ''weka/core/Range'' ''(Ljava/lang/String;)V'' [JString ''1''],
         Call (JObject 0) ''setDatasetKeyColumns'' ''(Lweka/core/Range;)V'' [JObject 1],
         Call (JObject 0) ''setRunColumn'' ''(I)V'' [JInt 1],
         Call (JObject 0) ''setFoldColumn'' ''(I)V'' [JInt 2],
         MakeInstance ''weka/core/Range'' ''(Ljava/lang/String;)V'' [JString ''4,5,6''],
         Call (JObject 0) ''setResultsetKeyColumns'' ''(Lweka/core/Range;)V'' [JObject 5]]\<rparr>)"
  using columns_resolved [of reporting "attached result_file" result_file "Tester_init 0"
      "[''Key_Dataset'']" "''Key_Run''"
      "[''Key_Scheme'', ''Key_Scheme_options'', ''Key_Scheme_version_ID'']"]
  by (simp add: never_throws_def reporting_def attached_def result_file_def Tester_init_def
      of_ref_def one_based_range_def position_def str_nat.simps digit_char_def)

end
